theory Spec2Isabelle
  imports Complex_Main "HOL-Library.Product_Lexorder" "HOL-Library.AList"
begin

section \<open>Python values, errors and strings\<close>

text \<open>
  The bot is Python.  A Python \<open>str\<close> is modelled as a \<open>string\<close> whose characters are
  read as the code points 0..255; code points above 255 are outside the model.
  The helpers below follow the behaviour of the built-in string methods on that range.
  Python integers are unbounded and are modelled by \<open>int\<close>; the interpreter's optional
  limit on the number of digits converted between \<open>int\<close> and \<open>str\<close> is not modelled.
\<close>

datatype py_error =
    TypeError | ValueError | AttributeError | KeyError | IndexError
  | HTTPError | ValidationError | JSONDecodeError

datatype pyval = PNone | PInt int | PStr string

text \<open>\<open>str.isspace\<close> on one character (code points below 256).\<close>

definition py_isspace :: "char \<Rightarrow> bool" where
  "py_isspace c =
     (let n = (of_char c :: nat)
      in (9 \<le> n \<and> n \<le> 13) \<or> (28 \<le> n \<and> n \<le> 32) \<or> n = 133 \<or> n = 160)"

text \<open>\<open>s.strip()\<close>: leading and trailing whitespace removed.\<close>

definition py_strip :: "string \<Rightarrow> string" where
  "py_strip s = rev (dropWhile py_isspace (rev (dropWhile py_isspace s)))"

text \<open>
  \<open>s.split(d, n)\<close> for a one-character separator \<open>d\<close>: at most \<open>n\<close> splits, the
  remainder of the string is the last element.
\<close>

primrec py_split :: "char \<Rightarrow> nat \<Rightarrow> string \<Rightarrow> string list" where
  "py_split d 0 s = [s]"
| "py_split d (Suc n) s =
     (if d \<in> set s
      then takeWhile (\<lambda>c. c \<noteq> d) s # py_split d n (tl (dropWhile (\<lambda>c. c \<noteq> d) s))
      else [s])"

text \<open>\<open>s.split(d)\<close> without a limit: a string of length \<open>k\<close> has at most \<open>k\<close> separators.\<close>

definition py_split_all :: "char \<Rightarrow> string \<Rightarrow> string list" where
  "py_split_all d s = py_split d (length s) s"

definition is_ascii_digit :: "char \<Rightarrow> bool" where
  "is_ascii_digit c = (let n = (of_char c :: nat) in 48 \<le> n \<and> n \<le> 57)"

definition digit_val :: "char \<Rightarrow> nat" where
  "digit_val c = (of_char c :: nat) - 48"

definition digit_char :: "nat \<Rightarrow> char" where
  "digit_char n = char_of (48 + n)"

text \<open>\<open>str(n)\<close> for an integer: decimal digits, a minus sign for negatives.\<close>

function int_digits :: "int \<Rightarrow> string" where
  "int_digits n =
     (if n < 10 then [digit_char (nat n)]
      else int_digits (n div 10) @ [digit_char (nat (n mod 10))])"
  by pat_completeness auto
termination
  by (relation "measure nat") auto

declare int_digits.simps [simp del]

definition str_int :: "int \<Rightarrow> string" where
  "str_int i = (if i < 0 then CHR ''-'' # int_digits (- i) else int_digits i)"

definition py_str :: "pyval \<Rightarrow> string" where
  "py_str v = (case v of PNone \<Rightarrow> ''None'' | PInt i \<Rightarrow> str_int i | PStr s \<Rightarrow> s)"

text \<open>
  \<open>int(s)\<close> for a string: surrounding whitespace is ignored, one sign is allowed, and the
  digits may be grouped by single underscores.  Anything else raises \<open>ValueError\<close>,
  which is \<open>None\<close> here.
\<close>

fun int_body_ok :: "string \<Rightarrow> bool" where
  "int_body_ok [] = False"
| "int_body_ok [c] = is_ascii_digit c"
| "int_body_ok (c # d # r) =
     (is_ascii_digit c \<and> (if d = CHR ''_'' then int_body_ok r else int_body_ok (d # r)))"

definition digits_to_int :: "string \<Rightarrow> int" where
  "digits_to_int ds = foldl (\<lambda>a c. 10 * a + int (digit_val c)) 0 ds"

definition py_int :: "string \<Rightarrow> int option" where
  "py_int s0 =
     (let s = py_strip s0;
          neg = (s \<noteq> [] \<and> hd s = CHR ''-'');
          body = (if s \<noteq> [] \<and> (hd s = CHR ''-'' \<or> hd s = CHR ''+'') then tl s else s)
      in if int_body_ok body
         then Some ((if neg then - 1 else 1)
                    * digits_to_int (filter (\<lambda>c. c \<noteq> CHR ''_'') body))
         else None)"

section \<open>Command codec (\<open>bot_blueprint.py\<close>)\<close>

text \<open>
  \<open>_safe_int(val, default)\<close>: \<open>None\<close>, the strings \<open>""\<close>, \<open>"None"\<close>, \<open>"null"\<close> and
  everything \<open>int\<close> rejects give the default.
\<close>

definition safe_int :: "pyval \<Rightarrow> int option \<Rightarrow> int option" where
  "safe_int val dflt =
     (case val of
        PNone \<Rightarrow> dflt
      | _ \<Rightarrow>
         (let s = py_strip (py_str val)
          in if s = '''' \<or> s = ''None'' \<or> s = ''null'' then dflt
             else (case py_int s of None \<Rightarrow> dflt | Some n \<Rightarrow> Some n)))"

type_synonym cmd_result = "bool \<times> string option \<times> int option \<times> int option \<times> pyval"

definition cmd_fail :: cmd_result where
  "cmd_fail = (False, None, None, None, PNone)"

text \<open>
  \<open>_parse_cmd(s)\<close>.  The fifth component is \<open>arg\<close> itself when it is \<open>""\<close> or \<open>"None"\<close>,
  and \<open>_safe_int(arg)\<close> otherwise.
\<close>

definition parse_cmd :: "pyval \<Rightarrow> cmd_result" where
  "parse_cmd s =
     (case s of
        PStr str \<Rightarrow>
          (case py_split (CHR ''|'') 4 (py_strip str) of
             [t, action, i, v, arg] \<Rightarrow>
               if t \<noteq> ''CART'' then cmd_fail
               else (True, Some action, safe_int (PStr i) None, safe_int (PStr v) None,
                     if arg = '''' \<or> arg = ''None'' then PStr arg
                     else (case safe_int (PStr arg) None of
                             None \<Rightarrow> PNone | Some n \<Rightarrow> PInt n))
           | _ \<Rightarrow> cmd_fail)
      | _ \<Rightarrow> cmd_fail)"

text \<open>\<open>_cmd(action, item_id, variant_id, arg)\<close>: absent ids are written as 0.\<close>

definition cmd :: "string \<Rightarrow> int option \<Rightarrow> int option \<Rightarrow> pyval \<Rightarrow> string" where
  "cmd action item_id variant_id arg =
     (let safe_item = (case item_id of Some i \<Rightarrow> i | None \<Rightarrow> 0);
          safe_variant = (case variant_id of Some v \<Rightarrow> v | None \<Rightarrow> 0)
      in ''CART|'' @ action @ ''|'' @ str_int safe_item @ ''|'' @ str_int safe_variant
         @ ''|'' @ py_str arg)"

text \<open>The pipe-delimited fields of a token, as the specification counts them.\<close>

definition pipe_fields :: "string \<Rightarrow> string list" where
  "pipe_fields s = py_split_all (CHR ''|'') (py_strip s)"


section \<open>More string helpers\<close>

definition py_startswith :: "string \<Rightarrow> string \<Rightarrow> bool" where
  "py_startswith s p = (take (length p) s = p)"

text \<open>\<open>sub in s\<close>.\<close>

fun py_contains :: "string \<Rightarrow> string \<Rightarrow> bool" where
  "py_contains [] sub = (sub = [])"
| "py_contains (c # cs) sub = (py_startswith (c # cs) sub \<or> py_contains cs sub)"

text \<open>\<open>str.lower\<close> on one character: A-Z and the accented capitals of the range.\<close>

definition lower_char :: "char \<Rightarrow> char" where
  "lower_char c =
     (let n = (of_char c :: nat)
      in if (65 \<le> n \<and> n \<le> 90) \<or> (192 \<le> n \<and> n \<le> 222 \<and> n \<noteq> 215)
         then char_of (n + 32) else c)"

definition py_lower :: "string \<Rightarrow> string" where
  "py_lower s = map lower_char s"

text \<open>
  \<open>str.upper\<close>: a-z and the accented small letters of the range; the sharp s becomes
  \<open>SS\<close>.  Python maps the micro sign and y-diaeresis to code points above 255; they are
  left unchanged here.
\<close>

definition upper_char :: "char \<Rightarrow> string" where
  "upper_char c =
     (let n = (of_char c :: nat)
      in if (97 \<le> n \<and> n \<le> 122) \<or> (224 \<le> n \<and> n \<le> 254 \<and> n \<noteq> 247)
         then [char_of (n - 32)]
         else if n = 223 then ''SS'' else [c])"

definition py_upper :: "string \<Rightarrow> string" where
  "py_upper s = concat (map upper_char s)"

text \<open>\<open>str.isdigit\<close>: the ASCII digits and the superscripts two, three and one.\<close>

definition py_isdigit :: "char \<Rightarrow> bool" where
  "py_isdigit c =
     (let n = (of_char c :: nat) in (48 \<le> n \<and> n \<le> 57) \<or> n = 178 \<or> n = 179 \<or> n = 185)"

text \<open>\<open>sep.join(xs)\<close>.\<close>

fun py_join :: "string \<Rightarrow> string list \<Rightarrow> string" where
  "py_join sep [] = []"
| "py_join sep [x] = x"
| "py_join sep (x # y # r) = x @ sep @ py_join sep (y # r)"

text \<open>\<open>s.split(sep)\<close> for a separator of any length, no limit; \<open>acc\<close> is the current piece.\<close>

function py_split_str :: "string \<Rightarrow> string \<Rightarrow> string \<Rightarrow> string list" where
  "py_split_str sep acc s =
     (if s = [] then [acc]
      else if sep \<noteq> [] \<and> py_startswith s sep
           then acc # py_split_str sep [] (drop (length sep) s)
           else py_split_str sep (acc @ [hd s]) (tl s))"
  by pat_completeness auto
termination
  by (relation "measure (\<lambda>(sep, acc, s). length s)") auto

declare py_split_str.simps [simp del]

text \<open>\<open>s.replace(pat, "")\<close>: every occurrence removed, scanning from the left.\<close>

function py_remove :: "string \<Rightarrow> string \<Rightarrow> string" where
  "py_remove pat s =
     (if s = [] then []
      else if pat \<noteq> [] \<and> py_startswith s pat then py_remove pat (drop (length pat) s)
      else hd s # py_remove pat (tl s))"
  by pat_completeness auto
termination
  by (relation "measure (\<lambda>(pat, s). length s)") auto

declare py_remove.simps [simp del]

text \<open>\<open>name.split()[0]\<close>: the first whitespace-delimited word, \<open>IndexError\<close> without one.\<close>

definition first_word :: "string \<Rightarrow> py_error + string" where
  "first_word s =
     (let r = dropWhile py_isspace s
      in if r = [] then Inl IndexError else Inr (takeWhile (\<lambda>c. \<not> py_isspace c) r))"

section \<open>Deduplication store (\<open>_claim_once\<close>)\<close>

text \<open>
  \<open>_seen\<close> is a dictionary from key to expiry time; it is kept as an association list in
  insertion order, with one entry per key.  \<open>time.time()\<close> is the argument \<open>now\<close>.
  When the message id is missing or empty the key ends in \<open>hash(pkt)\<close>, the
  interpreter's hash of the serialised payload, passed here as \<open>payload_hash\<close>.
\<close>

type_synonym seen_store = "(string \<times> real) list"

definition dedupe_key :: "string \<Rightarrow> string \<Rightarrow> string option \<Rightarrow> int \<Rightarrow> string" where
  "dedupe_key kind wa_id msg_id payload_hash =
     ''dedupe:'' @ kind @ '':'' @ wa_id @ '':'' @
       (case msg_id of
          None \<Rightarrow> str_int payload_hash
        | Some m \<Rightarrow> if m \<noteq> [] then m else str_int payload_hash)"

definition sweep :: "real \<Rightarrow> seen_store \<Rightarrow> seen_store" where
  "sweep now seen = filter (\<lambda>(k, expiry). \<not> expiry < now) seen"

definition claim_once ::
  "int \<Rightarrow> string \<Rightarrow> string \<Rightarrow> string option \<Rightarrow> int \<Rightarrow> real \<Rightarrow> seen_store \<Rightarrow> bool \<times> seen_store"
where
  "claim_once ttl kind wa_id msg_id payload_hash now seen =
     (let key = dedupe_key kind wa_id msg_id payload_hash;
          seen1 = (if seen \<noteq> [] \<and> length seen mod 100 = 0 then sweep now seen else seen)
      in if key \<in> set (map fst seen1) then (False, seen1)
         else (True, seen1 @ [(key, now + real_of_int ttl)]))"

definition DEDUP_TTL :: int where
  "DEDUP_TTL = 172800"


section \<open>External collaborators and effects\<close>

text \<open>
  The cart backend, the order backend, the menu service, the messaging API and the
  chat-completion service are outside the program.  Every call to one of them is
  recorded as an event, in order; what the call returns is given by the environment
  as a function of the events so far (the call itself included), so any deterministic
  behaviour of the collaborators is covered.  A raised exception is \<open>Inl\<close>.
  Numbers that Python holds as floats are real numbers here, so the rounding and the
  range of binary floating point are not modelled.  In literal texts, characters above code point 255
  (bullets, dashes, arrows, typographic quotes) are written with ASCII stand-ins, and
  an emoji is left out together with the space after it.
\<close>

datatype json =
    JNull | JBool bool | JInt int | JFloat real | JStr string
  | JArr "json list" | JObj "(string \<times> json) list"

text \<open>\<open>int(x)\<close> for a float: the fraction is cut off, towards zero.\<close>

definition py_trunc :: "real \<Rightarrow> int" where
  "py_trunc x = (if x < 0 then \<lceil>x\<rceil> else \<lfloor>x\<rfloor>)"

text \<open>
  \<open>int(v)\<close> for a value read from JSON: numbers and booleans convert, a string is
  parsed (\<open>ValueError\<close> when it is no integer), everything else is a \<open>TypeError\<close>.
\<close>

definition int_of_json :: "json \<Rightarrow> py_error + int" where
  "int_of_json v =
     (case v of
        JInt n \<Rightarrow> Inr n
      | JFloat x \<Rightarrow> Inr (py_trunc x)
      | JBool b \<Rightarrow> Inr (if b then 1 else 0)
      | JStr s \<Rightarrow> (case py_int s of Some n \<Rightarrow> Inr n | None \<Rightarrow> Inl ValueError)
      | _ \<Rightarrow> Inl TypeError)"

text \<open>
  A cart line as \<open>get_cart\<close> returns it: \<open>ci_qty\<close> is \<open>int(i["qty"])\<close> and
  \<open>ci_price\<close> is \<open>float(i["price"])\<close>.
\<close>

record cart_item =
  ci_item_id :: int
  ci_name :: string
  ci_qty :: int
  ci_price :: real

text \<open>
  A menu item as \<open>fetch_menu\<close> returns it.  \<open>mi_price\<close> is the raw value of
  \<open>item.get("price", 0)\<close>: a missing price is \<open>JInt 0\<close>.
\<close>

record menu_item =
  mi_id :: int
  mi_name :: string
  mi_price :: json
  mi_desc :: string
  mi_tags :: "string list"

record category =
  cat_name :: string
  cat_items :: "menu_item list"

datatype cart_op =
    OpSetNote int pyval string
  | OpRemove int
  | OpSetQty int int
  | OpChangeVariant "int option" "int option" int

type_synonym wa_row = "string \<times> string \<times> string"
type_synonym wa_section = "string \<times> wa_row list"

datatype event =
    SendText string string
  | SendDocument string string string
  | SendList string string "wa_section list"
  | GetCart string
  | AddToCart string int int
  | UpdateCart string "cart_op list"
  | Checkout string string string string
  | FetchOrder string
  | FetchMenu
  | FetchMenuPdfUrls
  | UpdateLastOrder string
  | LlmRouteCall string "string list"
  | ChatCompletion string
  | Sleep nat

text \<open>The calls that change the cart or place an order.\<close>

fun is_mutation :: "event \<Rightarrow> bool" where
  "is_mutation (AddToCart w i q) = True"
| "is_mutation (UpdateCart w ops) = True"
| "is_mutation (Checkout u n ph m) = True"
| "is_mutation e = False"

fun is_llm_call :: "event \<Rightarrow> bool" where
  "is_llm_call (LlmRouteCall p ks) = True"
| "is_llm_call (ChatCompletion p) = True"
| "is_llm_call e = False"

record line_item =
  li_item_id :: "string option"
  li_item_name :: "string option"
  li_qty :: int

text \<open>
  \<open>ParsedOrder\<close>, with the fields that are set or read somewhere in the repository; the
  other optional fields keep their defaults and are never read.
\<close>

record parsed_order =
  po_action :: string
  po_items :: "line_item list"
  po_clarifications :: "string list"
  po_response_text :: "string option"

text \<open>One choice of a chat completion: the argument strings of its tool calls, if any.\<close>

record choice =
  tool_calls :: "string list option"

record env =
  get_cart_r :: "event list \<Rightarrow> py_error + cart_item list"
  update_cart_r :: "event list \<Rightarrow> py_error + unit"
  add_to_cart_r :: "event list \<Rightarrow> py_error + unit"
  checkout_r :: "event list \<Rightarrow> py_error + pyval"
  fetch_order_r :: "event list \<Rightarrow> py_error + string"
  fetch_menu_r :: "event list \<Rightarrow> py_error + category list"
  fetch_menu_pdf_urls_r :: "event list \<Rightarrow> py_error + string list"
  rewrite_url :: "string \<Rightarrow> string"
  float_repr :: "real \<Rightarrow> string"
  parse_float :: "string \<Rightarrow> real option"
  chat_r :: "event list \<Rightarrow> py_error + choice list"
  json_loads :: "string \<Rightarrow> py_error + json"
  validate_fields ::
    "(string \<times> json) list \<Rightarrow> py_error + (line_item list \<times> string list \<times> string option)"

type_synonym 'a io = "event list \<Rightarrow> (py_error + 'a) \<times> event list"

definition ret :: "'a \<Rightarrow> 'a io" where
  "ret x tr = (Inr x, tr)"

definition raise :: "py_error \<Rightarrow> 'a io" where
  "raise e tr = (Inl e, tr)"

definition bind :: "'a io \<Rightarrow> ('a \<Rightarrow> 'b io) \<Rightarrow> 'b io" where
  "bind m f tr = (case m tr of (Inl e, tr1) \<Rightarrow> (Inl e, tr1) | (Inr x, tr1) \<Rightarrow> f x tr1)"

text \<open>\<open>try: m  except Exception: h\<close>.\<close>

definition try_except :: "'a io \<Rightarrow> (py_error \<Rightarrow> 'a io) \<Rightarrow> 'a io" where
  "try_except m h tr = (case m tr of (Inl e, tr1) \<Rightarrow> h e tr1 | (Inr x, tr1) \<Rightarrow> (Inr x, tr1))"

definition call :: "event \<Rightarrow> (event list \<Rightarrow> py_error + 'a) \<Rightarrow> 'a io" where
  "call ev res tr = (res (tr @ [ev]), tr @ [ev])"

definition emit :: "event \<Rightarrow> unit io" where
  "emit ev tr = (Inr (), tr @ [ev])"

text \<open>The senders of \<open>wa_api.py\<close> catch every failure themselves.\<close>

definition send_text :: "string \<Rightarrow> string \<Rightarrow> unit io" where
  "send_text wa_id body = emit (SendText wa_id body)"

definition send_document :: "string \<Rightarrow> string \<Rightarrow> string \<Rightarrow> unit io" where
  "send_document wa_id url caption = emit (SendDocument wa_id url caption)"

definition send_list :: "string \<Rightarrow> string \<Rightarrow> wa_section list \<Rightarrow> unit io" where
  "send_list wa_id body sections = emit (SendList wa_id body sections)"

definition get_cart :: "env \<Rightarrow> string \<Rightarrow> cart_item list io" where
  "get_cart E wa_id = call (GetCart wa_id) (get_cart_r E)"

definition update_cart :: "env \<Rightarrow> string \<Rightarrow> cart_op list \<Rightarrow> unit io" where
  "update_cart E wa_id ops = call (UpdateCart wa_id ops) (update_cart_r E)"

definition add_to_cart :: "env \<Rightarrow> string \<Rightarrow> int \<Rightarrow> int \<Rightarrow> unit io" where
  "add_to_cart E wa_id item_id qty = call (AddToCart wa_id item_id qty) (add_to_cart_r E)"

definition checkout :: "env \<Rightarrow> string \<Rightarrow> string \<Rightarrow> string \<Rightarrow> string \<Rightarrow> pyval io" where
  "checkout E user_id name phone method = call (Checkout user_id name phone method) (checkout_r E)"

definition fetch_order :: "env \<Rightarrow> string \<Rightarrow> string io" where
  "fetch_order E code = call (FetchOrder code) (fetch_order_r E)"

definition fetch_menu :: "env \<Rightarrow> category list io" where
  "fetch_menu E = call FetchMenu (fetch_menu_r E)"

definition fetch_menu_pdf_urls :: "env \<Rightarrow> string list io" where
  "fetch_menu_pdf_urls E = call FetchMenuPdfUrls (fetch_menu_pdf_urls_r E)"

section \<open>Cart summary and checkout helpers\<close>

definition NL :: string where
  "NL = [CHR 0x0A]"

text \<open>
  \<open>_send_cart(wa_id, prefix)\<close>; the prefix is accepted and not used, as in the source.
  The whole body is inside one \<open>try\<close> with a bare \<open>except\<close>.
\<close>

definition cart_lines :: "cart_item list \<Rightarrow> string list" where
  "cart_lines items =
     [''Cart:''] @ map (\<lambda>i. ''* '' @ ci_name i @ [CHR 0xD7] @ str_int (ci_qty i)) items
       @ [''Total KSh ''
          @ str_int (py_trunc (sum_list (map (\<lambda>i. real_of_int (ci_qty i) * ci_price i) items)))]"

definition send_cart :: "env \<Rightarrow> string \<Rightarrow> string \<Rightarrow> unit io" where
  "send_cart E wa_id prefix =
     try_except
       (bind (get_cart E wa_id) (\<lambda>items.
          if items = [] then send_text wa_id ''Cart empty''
          else send_text wa_id (py_join NL (cart_lines items))))
       (\<lambda>e. send_text wa_id ''Cart error'')"

definition do_checkout :: "env \<Rightarrow> string \<Rightarrow> string \<Rightarrow> string \<Rightarrow> unit io" where
  "do_checkout E wa_id name method =
     try_except
       (bind (checkout E wa_id name wa_id method) (\<lambda>code.
        bind (send_text wa_id (''Order placed! Code: *'' @ py_str code @ ''*'' @ NL
                               @ ''We'll confirm shortly.'')) (\<lambda>u.
        try_except (emit (UpdateLastOrder wa_id)) (\<lambda>e. ret ()))))
       (\<lambda>e. send_text wa_id ''Checkout failed. Please try again or send *help*.'')"

section \<open>Conversation state and note capture\<close>

type_synonym user_state = "string \<rightharpoonup> pyval"
type_synonym user_states = "string \<rightharpoonup> user_state"

text \<open>\<open>d.get(k)\<close>: \<open>None\<close> for a missing key.\<close>

definition dict_get :: "user_state \<Rightarrow> string \<Rightarrow> pyval" where
  "dict_get d k = (case d k of None \<Rightarrow> PNone | Some v \<Rightarrow> v)"

definition set_user_state :: "user_states \<Rightarrow> string \<Rightarrow> user_state \<Rightarrow> user_states" where
  "set_user_state states wa_id state = states(wa_id \<mapsto> state)"

definition get_user_state :: "user_states \<Rightarrow> string \<Rightarrow> user_state" where
  "get_user_state states wa_id = (case states wa_id of None \<Rightarrow> Map.empty | Some st \<Rightarrow> st)"

definition clear_user_state :: "user_states \<Rightarrow> string \<Rightarrow> user_states" where
  "clear_user_state states wa_id = states(wa_id := None)"

text \<open>
  \<open>handle_note_message(wa_id, text)\<close>.  The result carries the state store as it is when
  the function returns or raises: an exception from \<open>update_cart\<close> leaves the function
  before \<open>_clear_user_state\<close> runs.
\<close>

definition handle_note_message ::
  "env \<Rightarrow> user_states \<Rightarrow> string \<Rightarrow> string \<Rightarrow> event list
     \<Rightarrow> user_states \<times> (py_error + bool) \<times> event list"
where
  "handle_note_message E states wa_id text tr =
     (let state = get_user_state states wa_id
      in if dict_get state ''mode'' \<noteq> PStr ''await_note'' then (states, Inr False, tr)
         else
           (let item_id = safe_int (dict_get state ''item_id'') None;
                variant_id = dict_get state ''variant_id''
            in if item_id = None \<or> item_id = Some 0
               then (clear_user_state states wa_id, Inr False, tr)
               else
                 (case update_cart E wa_id
                         [OpSetNote (the item_id) variant_id (take 240 (py_strip text))] tr of
                    (Inl e, tr1) \<Rightarrow> (states, Inl e, tr1)
                  | (Inr u, tr1) \<Rightarrow>
                      (case send_cart E wa_id (''Note saved.'' @ NL) tr1 of
                         (Inl e, tr2) \<Rightarrow> (clear_user_state states wa_id, Inl e, tr2)
                       | (Inr u2, tr2) \<Rightarrow> (clear_user_state states wa_id, Inr True, tr2)))))"

section \<open>Structured-intent classifier (\<open>ai_router.py\<close>)\<close>

definition ACTIONS :: "string list" where
  "ACTIONS =
     [''ADD_TO_CART'', ''SHOW_MENU'', ''ASK_QUESTION'', ''CHECKOUT'',
      ''ORDER_STATUS'', ''VIEW_CART'', ''CLEAR_CART'', ''SMALL_TALK'',
      ''EDIT_SET_QTY'', ''EDIT_REMOVE'', ''EDIT_CHANGE_VARIANT'', ''EDIT_SET_NOTE'']"

text \<open>
  \<open>ParsedOrder(**data)\<close>.  Unpacking anything but an object is a \<open>TypeError\<close>.  The
  \<open>action\<close> field is required and must be one of the twelve literals.  The validation
  of the remaining fields is the library's and is taken from the environment.
\<close>

definition parsed_order_init :: "env \<Rightarrow> json \<Rightarrow> py_error + parsed_order" where
  "parsed_order_init E data =
     (case data of
        JObj kv \<Rightarrow>
          (case map_of kv ''action'' of
             Some (JStr a) \<Rightarrow>
               if a \<in> set ACTIONS
               then (case validate_fields E kv of
                       Inl e \<Rightarrow> Inl e
                     | Inr (its, cls, rt) \<Rightarrow>
                         Inr \<lparr>po_action = a, po_items = its, po_clarifications = cls,
                              po_response_text = rt\<rparr>)
               else Inl ValidationError
           | _ \<Rightarrow> Inl ValidationError)
      | _ \<Rightarrow> Inl TypeError)"

text \<open>\<open>resp.choices[0].message.tool_calls[0].function.arguments\<close>.\<close>

definition first_tool_arguments :: "choice list \<Rightarrow> py_error + string" where
  "first_tool_arguments choices =
     (case choices of
        [] \<Rightarrow> Inl IndexError
      | c # cs \<Rightarrow>
          (case tool_calls c of
             None \<Rightarrow> Inl TypeError
           | Some [] \<Rightarrow> Inl IndexError
           | Some (a # as) \<Rightarrow> Inr a))"

definition sentinel :: parsed_order where
  "sentinel =
     \<lparr>po_action = ''SMALL_TALK'', po_items = [], po_clarifications = [],
      po_response_text =
        Some ''Sorry, I didn't catch that. Could you try again or ask for the menu?''\<rparr>"

definition lift :: "py_error + 'a \<Rightarrow> 'a io" where
  "lift r tr = (r, tr)"

definition llm_prompt :: "string \<Rightarrow> string \<Rightarrow> string \<Rightarrow> string \<Rightarrow> string \<Rightarrow> string" where
  "llm_prompt user_text menu_snapshot user_profile cart_snapshot menu_text =
     ''MENU_SNAPSHOT:'' @ NL @ menu_snapshot @ NL @ NL
     @ ''MENU_TEXT:'' @ NL @ take 10000 menu_text @ NL @ NL
     @ ''PROFILE:'' @ NL @ user_profile @ NL @ NL
     @ ''CART_SNAPSHOT:'' @ NL @ cart_snapshot @ NL @ NL
     @ ''USER:'' @ NL @ user_text"

definition llm_route ::
  "env \<Rightarrow> string \<Rightarrow> string \<Rightarrow> string \<Rightarrow> string \<Rightarrow> string \<Rightarrow> parsed_order io"
where
  "llm_route E user_text menu_snapshot user_profile cart_snapshot menu_text =
     try_except
       (bind (call (ChatCompletion
                      (llm_prompt user_text menu_snapshot user_profile cart_snapshot menu_text))
                   (chat_r E)) (\<lambda>resp.
        bind (lift (first_tool_arguments resp)) (\<lambda>args.
        bind (lift (json_loads E args)) (\<lambda>data.
        lift (parsed_order_init E data)))))
       (\<lambda>e. ret sentinel)"

subsection \<open>Calling \<open>llm_route\<close>\<close>

text \<open>
  How Python binds the arguments of a call to a function whose parameters are all
  positional-or-keyword: too many positional arguments, a keyword that names no
  parameter or one already filled, and a parameter left without a value are each a
  \<open>TypeError\<close>, raised before the body runs.
\<close>

datatype argval = ArgStr string | ArgInt int | ArgFloat real

record param =
  pname :: string
  pdefault :: "argval option"

fun fill_params :: "param list \<Rightarrow> (string \<times> argval) list \<Rightarrow> py_error + argval list" where
  "fill_params [] kws = Inr []"
| "fill_params (p # ps) kws =
     (case (case map_of kws (pname p) of Some v \<Rightarrow> Some v | None \<Rightarrow> pdefault p) of
        None \<Rightarrow> Inl TypeError
      | Some v \<Rightarrow> (case fill_params ps kws of Inl e \<Rightarrow> Inl e | Inr vs \<Rightarrow> Inr (v # vs)))"

definition bind_args ::
  "param list \<Rightarrow> argval list \<Rightarrow> (string \<times> argval) list \<Rightarrow> py_error + argval list"
where
  "bind_args ps pos kws =
     (if length ps < length pos then Inl TypeError
      else if list_ex (\<lambda>k. k \<notin> set (map pname ps)) (map fst kws) then Inl TypeError
      else if list_ex (\<lambda>k. k \<in> set (map pname (take (length pos) ps))) (map fst kws)
           then Inl TypeError
      else (case fill_params (drop (length pos) ps) kws of
              Inl e \<Rightarrow> Inl e
            | Inr vs \<Rightarrow> Inr (pos @ vs)))"

definition llm_route_params :: "param list" where
  "llm_route_params =
     [\<lparr>pname = ''user_text'', pdefault = None\<rparr>,
      \<lparr>pname = ''menu_snapshot'', pdefault = None\<rparr>,
      \<lparr>pname = ''user_profile'', pdefault = None\<rparr>,
      \<lparr>pname = ''cart_snapshot'', pdefault = None\<rparr>,
      \<lparr>pname = ''menu_text'', pdefault = Some (ArgStr [])\<rparr>]"

text \<open>
  A call of \<open>llm_route\<close> with the given positional and keyword arguments.  The body is
  written for string arguments, the only kind the annotations admit.
\<close>

definition call_llm_route ::
  "env \<Rightarrow> argval list \<Rightarrow> (string \<times> argval) list \<Rightarrow> parsed_order io"
where
  "call_llm_route E pos kws =
     (case bind_args llm_route_params pos kws of
        Inl e \<Rightarrow> raise e
      | Inr [ArgStr a, ArgStr b, ArgStr c, ArgStr d, ArgStr e] \<Rightarrow> llm_route E a b c d e
      | Inr vs \<Rightarrow> raise TypeError)"

section \<open>Recommendation engine (\<open>_send_recommendations\<close>)\<close>

record rec_item =
  r_name :: string
  r_price :: int
  r_tags :: "string list"
  r_popular :: bool

text \<open>
  One pass of the loop that builds \<open>items\<close>: the price is \<open>int(item.get("price", 0))\<close>,
  and an exception of \<open>int\<close> is not caught.
\<close>

definition to_rec_item :: "menu_item \<Rightarrow> py_error + rec_item" where
  "to_rec_item item =
     (let tags = map py_lower (mi_tags item)
      in case int_of_json (mi_price item) of
           Inl e \<Rightarrow> Inl e
         | Inr price \<Rightarrow>
             Inr \<lparr>r_name = mi_name item, r_price = price, r_tags = tags,
                  r_popular = list_ex (\<lambda>t. t \<in> set tags)
                                [''popular'', ''best'', ''signature'', ''favourite'']\<rparr>)"

text \<open>A loop that stops at the first exception.\<close>

fun map_result :: "('a \<Rightarrow> py_error + 'b) \<Rightarrow> 'a list \<Rightarrow> py_error + 'b list" where
  "map_result f [] = Inr []"
| "map_result f (x # xs) =
     (case f x of
        Inl e \<Rightarrow> Inl e
      | Inr y \<Rightarrow> (case map_result f xs of Inl e \<Rightarrow> Inl e | Inr ys \<Rightarrow> Inr (y # ys)))"

definition menu_rec_items :: "category list \<Rightarrow> py_error + rec_item list" where
  "menu_rec_items menu = map_result to_rec_item (concat (map cat_items menu))"

definition any_in :: "string list \<Rightarrow> string \<Rightarrow> bool" where
  "any_in ws s = list_ex (\<lambda>w. py_contains s w) ws"

definition diet_filter :: "string \<Rightarrow> rec_item list \<Rightarrow> rec_item list" where
  "diet_filter both recs =
     (if any_in [''veg'', ''vegetarian'', ''no meat''] both
      then filter (\<lambda>i. ''vegetarian'' \<in> set (r_tags i) \<or> ''veg'' \<in> set (r_tags i)) recs
      else recs)"

definition spice_filter :: "string \<Rightarrow> rec_item list \<Rightarrow> rec_item list" where
  "spice_filter both recs =
     (if any_in [''spicy'', ''hot'', ''peri'', ''chilli''] both
      then filter (\<lambda>i. ''spicy'' \<in> set (r_tags i)) recs
      else recs)"

text \<open>\<open>int(''.join(filter(str.isdigit, text_low + hint)))\<close>; \<open>None\<close> when \<open>int\<close> raises.\<close>

definition extract_budget :: "string \<Rightarrow> int option" where
  "extract_budget both = py_int (filter py_isdigit both)"

definition budget_filter :: "string \<Rightarrow> string \<Rightarrow> rec_item list \<Rightarrow> rec_item list" where
  "budget_filter text_low both recs =
     (if any_in [''under'', ''below'', ''max'', ''cheaper than''] text_low
      then (case extract_budget both of
              Some budget \<Rightarrow> filter (\<lambda>i. r_price i \<le> budget) recs
            | None \<Rightarrow> recs)
      else recs)"

definition popular_trigger :: "string \<Rightarrow> bool" where
  "popular_trigger both =
     any_in [''popular'', ''best'', ''good'', ''recommend'', ''your favorite'', ''signature''] both"

definition popular_filter :: "string \<Rightarrow> rec_item list \<Rightarrow> rec_item list" where
  "popular_filter both recs =
     (if popular_trigger both
      then (let pop = filter r_popular recs
            in if pop \<noteq> [] then pop else take 6 (sort_key r_price recs))
      else recs)"

text \<open>The sort key \<open>(-x["popular"], x["price"])\<close>.\<close>

definition final_key :: "rec_item \<Rightarrow> int \<times> int" where
  "final_key x = (- (if r_popular x then 1 else 0), r_price x)"

text \<open>
  The items left after the dietary, spice and budget filters; \<open>items\<close> is the list
  built from the menu.
\<close>

definition candidate_pool :: "rec_item list \<Rightarrow> string \<Rightarrow> string \<Rightarrow> rec_item list" where
  "candidate_pool items user_text ai_hint =
     (let text_low = py_lower user_text; both = text_low @ py_lower ai_hint
      in budget_filter text_low both (spice_filter both (diet_filter both items)))"

definition recommend :: "rec_item list \<Rightarrow> string \<Rightarrow> string \<Rightarrow> rec_item list" where
  "recommend items user_text ai_hint =
     (let both = py_lower user_text @ py_lower ai_hint
      in take 6 (sort_key final_key
                   (popular_filter both (candidate_pool items user_text ai_hint))))"

definition NOTHING_MATCHES :: string where
  "NOTHING_MATCHES = ''Hmm, nothing matches right now. Try saying *menu*''"

definition picks_text :: "rec_item list \<Rightarrow> string" where
  "picks_text recs =
     py_join NL
       ([''Here are my top picks for you:'']
        @ map (\<lambda>r. ''* '' @ r_name r @ '' - KSh '' @ str_int (r_price r)) recs
        @ [NL @ ''Just say the name to add it''])"

definition send_recommendations :: "env \<Rightarrow> string \<Rightarrow> string \<Rightarrow> string \<Rightarrow> unit io" where
  "send_recommendations E wa_id user_text ai_hint =
     bind (fetch_menu E) (\<lambda>menu.
     bind (lift (menu_rec_items menu)) (\<lambda>items.
       (let recs = recommend items user_text ai_hint
        in if recs = [] then send_text wa_id NOTHING_MATCHES
           else send_text wa_id (picks_text recs))))"

text \<open>
  The budget as the specification describes it: the longest run of consecutive digits
  (the first one among runs of equal length).
\<close>

fun digit_runs :: "string \<Rightarrow> string \<Rightarrow> string list" where
  "digit_runs cur [] = [cur]"
| "digit_runs cur (c # cs) =
     (if py_isdigit c then digit_runs (cur @ [c]) cs else cur # digit_runs [] cs)"

definition longest_digit_run :: "string \<Rightarrow> string" where
  "longest_digit_run s =
     foldl (\<lambda>best r. if length best < length r then r else best) [] (digit_runs [] s)"

definition spec_budget :: "string \<Rightarrow> int option" where
  "spec_budget both = py_int (longest_digit_run both)"

section \<open>Text router (\<open>_route_text\<close>)\<close>

definition MULT :: string where
  "MULT = [CHR 0xD7]"

definition APOS :: string where
  "APOS = [CHR 0x27]"

text \<open>
  \<open>_fmt_price(v)\<close> of \<open>catalog.py\<close>: \<open>float(v or 0)\<close>, printed without a fraction when
  it has none, and \<open>"0"\<close> when \<open>float\<close> raises.  Parsing a string as a float and
  printing a float with a fraction are the interpreter's, taken from the environment.
\<close>

definition fmt_float :: "env \<Rightarrow> real \<Rightarrow> string" where
  "fmt_float E f = (if real_of_int (py_trunc f) = f then str_int (py_trunc f) else float_repr E f)"

definition fmt_price :: "env \<Rightarrow> json \<Rightarrow> string" where
  "fmt_price E v =
     (case v of
        JInt n \<Rightarrow> str_int n
      | JFloat x \<Rightarrow> fmt_float E x
      | JBool b \<Rightarrow> (if b then ''1'' else ''0'')
      | JStr s \<Rightarrow>
          (if s = [] then ''0''
           else (case parse_float E s of None \<Rightarrow> ''0'' | Some x \<Rightarrow> fmt_float E x))
      | _ \<Rightarrow> ''0'')"

text \<open>\<open>build_wa_sections(menu_json)\<close> of \<open>catalog.py\<close>.\<close>

definition build_wa_sections :: "env \<Rightarrow> category list \<Rightarrow> wa_section list" where
  "build_wa_sections E menu =
     take 10 (concat (map (\<lambda>cat.
        (let rows = map (\<lambda>it. (''add_'' @ str_int (mi_id it),
                                mi_name it @ '' - KSh '' @ fmt_price E (mi_price it),
                                take 70 (mi_desc it))) (cat_items cat)
         in if rows \<noteq> [] then [(take 24 (cat_name cat), take 10 rows)] else [])) menu))"

text \<open>
  \<open>_menu_pdf_urls()\<close>: the URL rewriting (public host, restaurant id) is the standard
  library's and is the environment's \<open>rewrite_url\<close>.
\<close>

definition menu_pdf_urls :: "env \<Rightarrow> string list io" where
  "menu_pdf_urls E =
     try_except
       (bind (fetch_menu_pdf_urls E) (\<lambda>urls.
          ret (map (rewrite_url E) (filter (\<lambda>u. py_startswith u ''http'') urls))))
       (\<lambda>e. ret [])"

definition CHECKOUT_WORDS :: "string list" where
  "CHECKOUT_WORDS =
     [''checkout'', ''pay'', ''place order'', ''i'm ready'', ''complete'', ''done'', ''yes'']"

definition CART_WORDS :: "string list" where
  "CART_WORDS = [''cart'', ''my order'', ''what i have'', ''show me'', ''show cart'']"

definition checkout_match :: "string \<Rightarrow> bool" where
  "checkout_match text_lower = any_in CHECKOUT_WORDS text_lower"

definition status_match :: "string \<Rightarrow> bool" where
  "status_match text_lower = py_startswith text_lower ''status''"

definition cart_match :: "string \<Rightarrow> bool" where
  "cart_match text_lower = any_in CART_WORDS text_lower"

text \<open>The order-status rule, from its second line on.\<close>

definition status_branch :: "env \<Rightarrow> string \<Rightarrow> string \<Rightarrow> unit io" where
  "status_branch E wa_id text_lower =
     (let code = py_strip (py_remove ''status'' text_lower)
      in if code \<noteq> []
         then try_except
                (bind (fetch_order E code) (\<lambda>status.
                   send_text wa_id (''Order *'' @ code @ ''* is *'' @ py_upper status
                                    @ ''* right now.'')))
                (\<lambda>e. send_text wa_id
                        ''I can't find that order. Check the code and try again.'')
         else ret ())"

definition cart_text_of :: "cart_item list \<Rightarrow> string" where
  "cart_text_of items =
     (let t = py_join '', '' (map (\<lambda>it. ci_name it @ '' '' @ MULT @ str_int (ci_qty it)) items)
      in if t = [] then ''nothing yet'' else t)"

definition DQ :: string where
  "DQ = [CHR 0x22]"

text \<open>
  The prompt of \<open>_route_text\<close>, line by line.  \<open>name.split()[0]\<close> raises
  \<open>IndexError\<close> for a name without a word.
\<close>

definition prompt_formats :: "string list" where
  "prompt_formats =
     [''Reply with exactly ONE of these formats ONLY:'',
      [],
      ''ADD <item> '' @ MULT @ ''<number>'',
      ''REMOVE <item>'',
      ''CHANGE <item> to '' @ MULT @ ''<number>'',
      ''CART'',
      ''MENU'',
      ''CHECKOUT'',
      ''RECOMMEND anything'',
      ''RECOMMEND spicy'',
      ''RECOMMEND vegetarian'',
      ''RECOMMEND under 800'',
      ''RECOMMEND popular'',
      [],
      ''Examples:'',
      DQ @ ''another burger please'' @ DQ @ '' -> ADD burger '' @ MULT @ ''1'',
      DQ @ ''remove the coke'' @ DQ @ '' -> REMOVE coke'',
      DQ @ ''make it three burgers'' @ DQ @ '' -> CHANGE burger to '' @ MULT @ ''3'',
      DQ @ ''what's good?'' @ DQ @ '' -> RECOMMEND popular'',
      DQ @ ''something spicy under 1000'' @ DQ @ '' -> RECOMMEND spicy under 1000'',
      DQ @ ''veg options?'' @ DQ @ '' -> RECOMMEND vegetarian'']"

definition build_prompt :: "string \<Rightarrow> string \<Rightarrow> string \<Rightarrow> py_error + string" where
  "build_prompt name cart_text text =
     (case first_word name of
        Inl e \<Rightarrow> Inl e
      | Inr first \<Rightarrow>
          Inr (py_join NL
                 ([[],
                   ''You are Abdi, a super friendly waiter at QuickBite in Nairobi.'',
                   ''Customer name: '' @ first,
                   ''Current cart: '' @ cart_text,
                   [],
                   ''Customer just said: '' @ DQ @ text @ DQ,
                   []]
                  @ prompt_formats
                  @ [[],
                     ''Current cart: '' @ cart_text,
                     ''Customer: '' @ DQ @ text @ DQ,
                     ''Reply:'',
                     []])))"

text \<open>Cart lines keyed by lowercased name, as the dictionary comprehension builds them.\<close>

definition cart_by_name :: "cart_item list \<Rightarrow> (string \<times> cart_item) list" where
  "cart_by_name items = foldl (\<lambda>d i. AList.update (py_lower (ci_name i)) i d) [] items"

definition find_in_cart :: "string \<Rightarrow> cart_item list \<Rightarrow> cart_item option" where
  "find_in_cart item items =
     (case find (\<lambda>(k, v). py_contains k item) (cart_by_name items) of
        None \<Rightarrow> None
      | Some (k, v) \<Rightarrow> Some v)"

definition add_branch :: "env \<Rightarrow> string \<Rightarrow> string \<Rightarrow> unit io" where
  "add_branch E wa_id response =
     (let item = py_lower (py_strip (hd (py_split_all (CHR 0xD7) (drop 4 response))));
          qty = (if CHR 0xD7 \<in> set response
                 then (case py_int (py_strip (py_split_all (CHR 0xD7) response ! 1)) of
                         Some q \<Rightarrow> q | None \<Rightarrow> 1)
                 else 1)
      in bind (fetch_menu E) (\<lambda>menu.
           (case filter (\<lambda>i. py_contains (py_lower (mi_name i)) item)
                        (concat (map cat_items menu)) of
              m # ms \<Rightarrow>
                bind (add_to_cart E wa_id (mi_id m) qty) (\<lambda>u.
                bind (send_text wa_id (''Got it! Added '' @ str_int qty @ '' '' @ MULT @ '' ''
                                       @ mi_name m)) (\<lambda>u.
                send_cart E wa_id (''Your updated cart:'' @ NL)))
            | [] \<Rightarrow>
                send_text wa_id (''Sorry, I don't have '' @ APOS @ item @ APOS
                                 @ ''. Say *menu* to see everything.''))))"

definition remove_branch :: "env \<Rightarrow> string \<Rightarrow> string \<Rightarrow> unit io" where
  "remove_branch E wa_id response =
     (let item = py_lower (py_strip (drop 7 response))
      in bind (get_cart E wa_id) (\<lambda>items.
           (case find_in_cart item items of
              Some m \<Rightarrow>
                bind (update_cart E wa_id [OpRemove (ci_item_id m)]) (\<lambda>u.
                bind (send_text wa_id (''Removed '' @ ci_name m @ '' from your cart'')) (\<lambda>u.
                send_cart E wa_id []))
            | None \<Rightarrow> ret ())))"

definition change_branch :: "env \<Rightarrow> string \<Rightarrow> string \<Rightarrow> unit io" where
  "change_branch E wa_id response =
     (let parts = py_split_str ('' TO '' @ MULT) [] (drop 7 response)
      in if length parts = 2
         then (let item_name = py_lower (py_strip (parts ! 0))
               in try_except
                    (case py_int (py_strip (parts ! 1)) of
                       None \<Rightarrow> raise ValueError
                     | Some qty \<Rightarrow>
                         bind (get_cart E wa_id) (\<lambda>items.
                           (case find_in_cart item_name items of
                              Some m \<Rightarrow>
                                bind (update_cart E wa_id [OpSetQty (ci_item_id m) qty]) (\<lambda>u.
                                bind (send_text wa_id (''Updated to '' @ str_int qty @ '' ''
                                                       @ MULT @ '' '' @ ci_name m)) (\<lambda>u.
                                send_cart E wa_id []))
                            | None \<Rightarrow> ret ())))
                    (\<lambda>e. ret ()))
         else ret ())"

definition menu_branch :: "env \<Rightarrow> string \<Rightarrow> unit io" where
  "menu_branch E wa_id =
     bind (menu_pdf_urls E) (\<lambda>urls.
       (case urls of
          u # us \<Rightarrow>
            bind (send_text wa_id ''Here's our full menu'') (\<lambda>x.
            send_document wa_id u ''QuickBite Menu'')
        | [] \<Rightarrow>
            bind (send_text wa_id ''Here's what we have today'') (\<lambda>x.
            bind (fetch_menu E) (\<lambda>menu.
            send_list wa_id ''Menu'' (build_wa_sections E menu)))))"

definition FALLBACK_TEXT :: string where
  "FALLBACK_TEXT = ''Got it! Anything else you'd like?''"

definition fallback_branch :: "env \<Rightarrow> string \<Rightarrow> unit io" where
  "fallback_branch E wa_id =
     bind (send_text wa_id FALLBACK_TEXT) (\<lambda>u.
     bind (emit (Sleep 300)) (\<lambda>u.
     send_cart E wa_id []))"

text \<open>Step 3 of \<open>_route_text\<close>: the action taken for the classifier's reply.\<close>

definition dispatch :: "env \<Rightarrow> string \<Rightarrow> string \<Rightarrow> string \<Rightarrow> string \<Rightarrow> unit io" where
  "dispatch E wa_id name text response =
     (let resp = py_upper response
      in if py_startswith resp ''ADD '' then add_branch E wa_id response
         else if py_startswith resp ''REMOVE '' then remove_branch E wa_id response
         else if py_startswith resp ''CHANGE '' then change_branch E wa_id response
         else if py_contains resp ''CART'' then send_cart E wa_id []
         else if py_contains resp ''MENU'' then menu_branch E wa_id
         else if py_contains resp ''CHECKOUT'' \<or> py_contains resp ''YES''
              then do_checkout E wa_id name ''pickup''
         else if py_startswith resp ''RECOMMEND''
              then send_recommendations E wa_id text response
         else fallback_branch E wa_id)"

text \<open>
  The value of \<open>llm_route(prompt, max_tokens=40, temperature=0.0).strip()\<close> inside its
  \<open>try\<close>: the call is recorded, the arguments are bound, and \<open>.strip()\<close> is looked up on
  the \<open>ParsedOrder\<close> a completed call returns, which has no such attribute.
\<close>

definition llm_response :: "env \<Rightarrow> string \<Rightarrow> string io" where
  "llm_response E prompt =
     try_except
       (bind (emit (LlmRouteCall prompt [''max_tokens'', ''temperature''])) (\<lambda>u.
        bind (call_llm_route E [ArgStr prompt]
                [(''max_tokens'', ArgInt 40), (''temperature'', ArgFloat 0)]) (\<lambda>parsed.
        raise AttributeError)))
       (\<lambda>e. ret [])"

text \<open>Step 2 and 3 of \<open>_route_text\<close>: everything after the hard overrides.\<close>

definition route_llm :: "env \<Rightarrow> string \<Rightarrow> string \<Rightarrow> string \<Rightarrow> unit io" where
  "route_llm E wa_id name text =
     bind (try_except (bind (get_cart E wa_id) (\<lambda>items. ret (cart_text_of items)))
                      (\<lambda>e. ret ''nothing yet'')) (\<lambda>cart_text.
     bind (lift (build_prompt name cart_text text)) (\<lambda>prompt.
     bind (llm_response E prompt) (\<lambda>response.
     dispatch E wa_id name text response)))"

definition route_text :: "env \<Rightarrow> string \<Rightarrow> string \<Rightarrow> string \<Rightarrow> unit io" where
  "route_text E wa_id name text =
     (let text_lower = py_lower (py_strip text)
      in if checkout_match text_lower then do_checkout E wa_id name ''pickup''
         else if status_match text_lower then status_branch E wa_id text_lower
         else if cart_match text_lower then send_cart E wa_id []
         else route_llm E wa_id name text)"

text \<open>
  The text branch of \<open>inbound\<close> for one message that passed the dedup gate, together
  with the handler of the enclosing \<open>try\<close>, which apologises to the sender.
\<close>

definition crash_reply :: "string \<Rightarrow> event list \<Rightarrow> event list" where
  "crash_reply wa_id tr =
     (if wa_id \<noteq> []
      then snd (send_text wa_id ''Sorry, something went wrong. Please try again.'' tr)
      else tr)"

definition inbound_text ::
  "env \<Rightarrow> user_states \<Rightarrow> string \<Rightarrow> string \<Rightarrow> string \<Rightarrow> event list
     \<Rightarrow> user_states \<times> event list"
where
  "inbound_text E states wa_id name body tr =
     (let raw_text = py_strip body
      in case handle_note_message E states wa_id raw_text tr of
           (states1, Inl e, tr1) \<Rightarrow> (states1, crash_reply wa_id tr1)
         | (states1, Inr True, tr1) \<Rightarrow> (states1, tr1)
         | (states1, Inr False, tr1) \<Rightarrow>
             (case route_text E wa_id name raw_text tr1 of
                (Inl e, tr2) \<Rightarrow> (states1, crash_reply wa_id tr2)
              | (Inr u, tr2) \<Rightarrow> (states1, tr2)))"

section \<open>Sample collaborators\<close>

text \<open>Collaborators that always succeed: an empty cart, an empty menu, no chat choices.\<close>

definition quiet_env :: env where
  "quiet_env =
     \<lparr>get_cart_r = (\<lambda>tr. Inr []),
      update_cart_r = (\<lambda>tr. Inr ()),
      add_to_cart_r = (\<lambda>tr. Inr ()),
      checkout_r = (\<lambda>tr. Inr (PStr ''A1'')),
      fetch_order_r = (\<lambda>tr. Inr ''ready''),
      fetch_menu_r = (\<lambda>tr. Inr []),
      fetch_menu_pdf_urls_r = (\<lambda>tr. Inr []),
      rewrite_url = (\<lambda>u. u),
      float_repr = (\<lambda>x. []),
      parse_float = (\<lambda>s. None),
      chat_r = (\<lambda>tr. Inr []),
      json_loads = (\<lambda>s. Inl JSONDecodeError),
      validate_fields = (\<lambda>kv. Inl ValidationError)\<rparr>"

text \<open>The same with a cart backend that rejects every update.\<close>

definition failing_cart_env :: env where
  "failing_cart_env = quiet_env\<lparr>update_cart_r := (\<lambda>tr. Inl HTTPError)\<rparr>"

text \<open>
  The same with a classifier that answers with an edit intent and one clarification:
  the tool call carries the JSON text of the intent, and the JSON parser and the field
  validation read it as written.
\<close>

definition CLARIFY_ARGS :: string where
  "CLARIFY_ARGS =
     ''{'' @ DQ @ ''action'' @ DQ @ '': '' @ DQ @ ''EDIT_SET_QTY'' @ DQ @ '', ''
     @ DQ @ ''items'' @ DQ @ '': [], ''
     @ DQ @ ''clarifications'' @ DQ @ '': ['' @ DQ @ ''Which burger?'' @ DQ @ ''], ''
     @ DQ @ ''response_text'' @ DQ @ '': null}''"

definition CLARIFY_DATA :: "(string \<times> json) list" where
  "CLARIFY_DATA =
     [(''action'', JStr ''EDIT_SET_QTY''), (''items'', JArr []),
      (''clarifications'', JArr [JStr ''Which burger?'']), (''response_text'', JNull)]"

definition clarifying_env :: env where
  "clarifying_env =
     quiet_env\<lparr>chat_r := (\<lambda>tr. Inr [\<lparr>tool_calls = Some [CLARIFY_ARGS]\<rparr>]),
               json_loads := (\<lambda>s. if s = CLARIFY_ARGS then Inr (JObj CLARIFY_DATA)
                                   else Inl JSONDecodeError),
               validate_fields := (\<lambda>kv. if kv = CLARIFY_DATA
                                          then Inr ([], [''Which burger?''], None)
                                          else Inl ValidationError)\<rparr>"

text \<open>The same with a classifier whose tool call carries text that is not JSON.\<close>

definition unparsable_env :: env where
  "unparsable_env = quiet_env\<lparr>chat_r := (\<lambda>tr. Inr [\<lparr>tool_calls = Some [''oops'']\<rparr>])\<rparr>"

text \<open>A state store in which one sender is asked for a note on cart item 5.\<close>

definition awaiting_note :: user_states where
  "awaiting_note =
     [''254700'' \<mapsto> [''mode'' \<mapsto> PStr ''await_note'', ''item_id'' \<mapsto> PInt 5]]"

fun is_outbound :: "event \<Rightarrow> bool" where
  "is_outbound (SendText w b) = True"
| "is_outbound (SendDocument w u c) = True"
| "is_outbound (SendList w b ss) = True"
| "is_outbound e = False"

text \<open>The same with two lines in the cart, one of them with a fractional price.\<close>

definition stocked_env :: env where
  "stocked_env =
     quiet_env\<lparr>get_cart_r := (\<lambda>tr.
        Inr [\<lparr>ci_item_id = 1, ci_name = ''Burger'', ci_qty = 2, ci_price = 450.5\<rparr>,
             \<lparr>ci_item_id = 7, ci_name = ''Soda'', ci_qty = 1, ci_price = 120\<rparr>])\<rparr>"

text \<open>Menu items without a description.\<close>

definition dish :: "int \<Rightarrow> string \<Rightarrow> json \<Rightarrow> string list \<Rightarrow> menu_item" where
  "dish i n p tags = \<lparr>mi_id = i, mi_name = n, mi_price = p, mi_desc = [], mi_tags = tags\<rparr>"

text \<open>A menu with a single item that carries no tags.\<close>

definition burger_menu :: "category list" where
  "burger_menu = [\<lparr>cat_name = ''Mains'', cat_items = [dish 1 ''Burger'' (JInt 500) []]\<rparr>]"

definition burger_items :: "rec_item list" where
  "burger_items = [\<lparr>r_name = ''Burger'', r_price = 500, r_tags = [], r_popular = False\<rparr>]"

definition burger_env :: env where
  "burger_env = quiet_env\<lparr>fetch_menu_r := (\<lambda>tr. Inr burger_menu)\<rparr>"

text \<open>A menu of eight items in two categories, none of them tagged as popular.\<close>

definition grill_menu :: "category list" where
  "grill_menu =
     [\<lparr>cat_name = ''Grill'', cat_items =
         [dish 1 ''Steak'' (JInt 1200) [], dish 2 ''Burger'' (JInt 500) [],
          dish 3 ''Wings'' (JFloat 650.75) [''Spicy''], dish 4 ''Ribs'' (JInt 900) [],
          dish 5 ''Platter'' (JInt 1500) []]\<rparr>,
      \<lparr>cat_name = ''Sides'', cat_items =
         [dish 6 ''Fries'' (JInt 200) [''Vegetarian''], dish 7 ''Salad'' (JInt 300) [''veg''],
          dish 8 ''Soda'' (JStr ''120'') []]\<rparr>]"

definition grill_items :: "rec_item list" where
  "grill_items = (case menu_rec_items grill_menu of Inr xs \<Rightarrow> xs | Inl e \<Rightarrow> [])"

text \<open>A menu of two spicy items and the collaborators that serve it.\<close>

definition spicy_menu :: "category list" where
  "spicy_menu =
     [\<lparr>cat_name = ''Grill'', cat_items =
         [dish 3 ''Wings'' (JInt 900) [''spicy''], dish 5 ''Platter'' (JInt 1500) [''spicy'']]\<rparr>]"

definition spicy_env :: env where
  "spicy_env = quiet_env\<lparr>fetch_menu_r := (\<lambda>tr. Inr spicy_menu)\<rparr>"

section \<open>Notions used in the statements\<close>

text \<open>The text \<open>_send_cart\<close> sends for a given answer of \<open>get_cart\<close>.\<close>

definition cart_summary :: "py_error + cart_item list \<Rightarrow> string" where
  "cart_summary r =
     (case r of
        Inl e \<Rightarrow> ''Cart error''
      | Inr items \<Rightarrow> if items = [] then ''Cart empty'' else py_join NL (cart_lines items))"

text \<open>The cart text the router puts into its prompt for a given answer of \<open>get_cart\<close>.\<close>

definition prompt_cart_text :: "py_error + cart_item list \<Rightarrow> string" where
  "prompt_cart_text r = (case r of Inl e \<Rightarrow> ''nothing yet'' | Inr items \<Rightarrow> cart_text_of items)"

text \<open>The keyword arguments of the router's call of \<open>llm_route\<close>.\<close>

definition ROUTER_KWARGS :: "(string \<times> argval) list" where
  "ROUTER_KWARGS = [(''max_tokens'', ArgInt 40), (''temperature'', ArgFloat 0)]"

text \<open>No deterministic rule of the router matches the text.\<close>

definition no_fast_path :: "string \<Rightarrow> bool" where
  "no_fast_path text =
     (let t = py_lower (py_strip text)
      in \<not> checkout_match t \<and> \<not> status_match t \<and> \<not> cart_match t)"

text \<open>A request to the chat-completion service.\<close>

fun is_chat :: "event \<Rightarrow> bool" where
  "is_chat (ChatCompletion p) = True"
| "is_chat e = False"

section \<open>Facts about the string helpers\<close>

lemma py_strip_id: "s \<noteq> [] \<Longrightarrow> \<not> py_isspace (hd s) \<Longrightarrow> \<not> py_isspace (last s) \<Longrightarrow> py_strip s = s"
proof -
  assume ne: "s \<noteq> []" and h: "\<not> py_isspace (hd s)" and l: "\<not> py_isspace (last s)"
  have a: "dropWhile py_isspace s = s" using ne h by (cases s) auto
  have b: "dropWhile py_isspace (rev s) = rev s" using ne l by (cases s rule: rev_cases) auto
  show ?thesis by (simp add: py_strip_def a b)
qed

lemma py_split_cons:
  "d \<notin> set a \<Longrightarrow> py_split d (Suc n) (a @ d # r) = a # py_split d n r"
  by (simp add: takeWhile_append dropWhile_append)

lemma length_py_split: "length (py_split d n s) = Suc (min n (count_list s d))"
proof (induction n arbitrary: s)
  case 0 show ?case by simp
next
  case (Suc n)
  show ?case
  proof (cases "d \<in> set s")
    case False
    then show ?thesis by (simp add: count_list_0_iff)
  next
    case True
    then obtain a r where s: "s = a @ d # r" and a: "d \<notin> set a"
      by (meson split_list_first)
    have "count_list a d = 0" using a by (simp add: count_list_0_iff)
    then show ?thesis using Suc[of r] a unfolding s py_split_cons[OF a] by simp
  qed
qed

lemma takeWhile_absent: "d \<notin> set s \<Longrightarrow> takeWhile (\<lambda>c. c \<noteq> d) s = s"
  by (induction s) auto

lemma hd_py_split: "hd (py_split d (Suc n) s) = takeWhile (\<lambda>c. c \<noteq> d) s"
  by (simp add: takeWhile_absent)

lemma py_split_step:
  "d \<notin> set a \<Longrightarrow> 0 < n \<Longrightarrow> py_split d n (a @ d # r) = a # py_split d (n - 1) r"
  by (cases n) (simp_all add: py_split_cons del: py_split.simps)

lemma of_char_digit_char: "n < 10 \<Longrightarrow> (of_char (digit_char n) :: nat) = 48 + n"
  by (simp add: digit_char_def)

lemma digit_val_digit_char: "n < 10 \<Longrightarrow> digit_val (digit_char n) = n"
  by (simp add: digit_val_def of_char_digit_char)

lemma is_ascii_digit_digit_char: "n < 10 \<Longrightarrow> is_ascii_digit (digit_char n)"
  by (simp add: is_ascii_digit_def of_char_digit_char)

lemma int_digits_all: "list_all is_ascii_digit (int_digits n)"
  by (induction n rule: int_digits.induct)
     (subst int_digits.simps, simp add: is_ascii_digit_digit_char)

lemma int_digits_ne: "int_digits n \<noteq> []"
  by (subst int_digits.simps) simp

lemma digits_to_int_snoc:
  "digits_to_int (ds @ [c]) = 10 * digits_to_int ds + int (digit_val c)"
  by (simp add: digits_to_int_def)

lemma digits_to_int_int_digits: "0 \<le> n \<Longrightarrow> digits_to_int (int_digits n) = n"
proof (induction n rule: int_digits.induct)
  case (1 n)
  show ?case
  proof (cases "n < 10")
    case True
    then show ?thesis using "1.prems"
      by (subst int_digits.simps) (simp add: digits_to_int_def digit_val_digit_char)
  next
    case False
    then have "digits_to_int (int_digits (n div 10)) = n div 10"
      using 1 by simp
    then show ?thesis using False
      by (subst int_digits.simps) (simp add: digits_to_int_snoc digit_val_digit_char)
  qed
qed

lemma int_body_ok_digits: "ds \<noteq> [] \<Longrightarrow> list_all is_ascii_digit ds \<Longrightarrow> int_body_ok ds"
  by (induction ds rule: int_body_ok.induct) (auto simp: is_ascii_digit_def)

lemma digit_not_special:
  "is_ascii_digit c \<Longrightarrow> c \<noteq> CHR ''_'' \<and> c \<noteq> CHR ''|'' \<and> c \<noteq> CHR ''-'' \<and> c \<noteq> CHR ''+'' \<and> \<not> py_isspace c
     \<and> c \<noteq> CHR ''N'' \<and> c \<noteq> CHR ''n''"
  by (auto simp: is_ascii_digit_def py_isspace_def Let_def)

lemma int_digits_hd_last:
  "is_ascii_digit (hd (int_digits n)) \<and> is_ascii_digit (last (int_digits n))"
  using int_digits_all[of n] int_digits_ne[of n]
  by (cases "int_digits n") (auto simp: list_all_iff)

lemma int_digits_no: "is_ascii_digit c \<or> c \<notin> set (int_digits n)"
  using int_digits_all[of n] by (auto simp: list_all_iff)

text \<open>\<open>int\<close> on a non-empty string of ASCII digits is the number they spell.\<close>

lemma py_int_digits:
  assumes "ds \<noteq> []" and "list_all is_ascii_digit ds"
  shows "py_int ds = Some (digits_to_int ds)"
proof -
  have hl: "is_ascii_digit (hd ds) \<and> is_ascii_digit (last ds)"
    using assms by (cases ds) (auto simp: list_all_iff)
  have s: "py_strip ds = ds"
    using hl assms(1) digit_not_special by (intro py_strip_id) auto
  have h: "hd ds \<noteq> CHR ''-'' \<and> hd ds \<noteq> CHR ''+''"
    using hl digit_not_special by blast
  have f: "filter (\<lambda>c. c \<noteq> CHR ''_'') ds = ds"
    using assms(2) digit_not_special by (auto simp: filter_id_conv list_all_iff)
  show ?thesis
    using h by (simp add: py_int_def s f int_body_ok_digits assms)
qed

lemma py_int_str_int: "py_int (str_int i) = Some i"
proof (cases "i < 0")
  case False
  then show ?thesis
    using py_int_digits[OF int_digits_ne int_digits_all, of i]
    by (simp add: str_int_def digits_to_int_int_digits)
next
  case True
  let ?d = "int_digits (- i)"
  have l: "\<not> py_isspace (last ?d)"
    using int_digits_hd_last digit_not_special by blast
  have s: "py_strip (CHR ''-'' # ?d) = CHR ''-'' # ?d"
    using l int_digits_ne by (intro py_strip_id) (auto simp: py_isspace_def)
  have f: "filter (\<lambda>c. c \<noteq> CHR ''_'') ?d = ?d"
    using int_digits_no[of "CHR ''_''"] digit_not_special[of "CHR ''_''"]
    by (auto simp: filter_id_conv)
  show ?thesis using True
    by (simp add: str_int_def py_int_def s f int_body_ok_digits int_digits_all int_digits_ne
          digits_to_int_int_digits)
qed

lemma str_int_ne: "str_int i \<noteq> []"
  by (simp add: str_int_def int_digits_ne)

lemma str_int_chars: "c \<in> set (str_int i) \<Longrightarrow> is_ascii_digit c \<or> c = CHR ''-''"
  using int_digits_no by (auto simp: str_int_def split: if_splits)

lemma str_int_no_pipe: "CHR ''|'' \<notin> set (str_int i)"
  using str_int_chars[of "CHR ''|''" i] digit_not_special[of "CHR ''|''"] by auto

lemma str_int_hd_last: "\<not> py_isspace (hd (str_int i)) \<and> \<not> py_isspace (last (str_int i))"
  using int_digits_hd_last digit_not_special int_digits_ne
  by (auto simp: str_int_def py_isspace_def)

lemma py_strip_str_int: "py_strip (str_int i) = str_int i"
  using str_int_hd_last str_int_ne by (intro py_strip_id) auto

lemma str_int_not_word: "str_int i \<noteq> ''None'' \<and> str_int i \<noteq> ''null''"
proof -
  have "hd (str_int i) \<noteq> CHR ''N'' \<and> hd (str_int i) \<noteq> CHR ''n''"
    using int_digits_hd_last digit_not_special by (auto simp: str_int_def)
  then show ?thesis by auto
qed

lemma safe_int_str_int: "safe_int (PStr (str_int i)) d = Some i"
  using str_int_not_word[of i]
  by (simp add: safe_int_def py_str_def py_strip_str_int str_int_ne py_int_str_int)

lemma py_strip_cmd: "py_strip (cmd action (Some i) (Some v) (PInt a)) = cmd action (Some i) (Some v) (PInt a)"
proof -
  have "\<not> py_isspace (last (str_int a))" using str_int_hd_last by blast
  then show ?thesis using str_int_ne[of a]
    by (intro py_strip_id) (auto simp: cmd_def py_str_def py_isspace_def)
qed

lemma parse_cmd_roundtrip:
  assumes "CHR ''|'' \<notin> set action"
  shows "parse_cmd (PStr (cmd action (Some i) (Some v) (PInt a))) = (True, Some action, Some i, Some v, PInt a)"
proof -
  let ?bar = "CHR ''|''"
  have e: "cmd action (Some i) (Some v) (PInt a)
            = ''CART'' @ ?bar # (action @ ?bar # (str_int i @ ?bar # (str_int v @ ?bar # str_int a)))"
    by (simp add: cmd_def py_str_def)
  have sp: "py_split ?bar 4 (cmd action (Some i) (Some v) (PInt a)) = [''CART'', action, str_int i, str_int v, str_int a]"
    unfolding e
    apply (subst py_split_step, simp, simp)
    apply (subst py_split_step, simp add: assms, simp)
    apply (subst py_split_step, simp add: str_int_no_pipe, simp)
    apply (subst py_split_step, simp add: str_int_no_pipe, simp)
    apply simp
    done
  show ?thesis
    using str_int_not_word[of a] str_int_ne[of a]
    by (simp add: parse_cmd_def py_strip_cmd sp safe_int_str_int)
qed

lemma case5:
  "(case ps of [t, a, i, v, g] \<Rightarrow> f t a i v g | _ \<Rightarrow> z)
     = (if length ps = 5 then f (ps ! 0) (ps ! 1) (ps ! 2) (ps ! 3) (ps ! 4) else z)"
  by (auto split: list.splits)

lemma count_list_le_length: "count_list s d \<le> length s"
  by (induction s) auto

lemma length_pipe_fields: "length (pipe_fields s) = Suc (count_list (py_strip s) (CHR ''|''))"
  by (simp add: pipe_fields_def py_split_all_def length_py_split count_list_le_length min_absorb2)

lemma hd_py_split_any: "hd (py_split d n s) = (if n = 0 then s else takeWhile (\<lambda>c. c \<noteq> d) s)"
  by (cases n) (simp_all add: takeWhile_absent)

lemma hd_pipe_fields: "hd (pipe_fields s) = takeWhile (\<lambda>c. c \<noteq> CHR ''|'') (py_strip s)"
  by (cases "py_strip s") (simp_all add: pipe_fields_def py_split_all_def hd_py_split_any del: py_split.simps)

lemma parse_cmd_ok_iff:
  "fst (parse_cmd (PStr s)) \<longleftrightarrow> (5 \<le> length (pipe_fields s) \<and> hd (pipe_fields s) = ''CART'')"
proof -
  let ?ps = "py_split (CHR ''|'') 4 (py_strip s)"
  have l: "length ?ps = 5 \<longleftrightarrow> 5 \<le> length (pipe_fields s)"
    by (auto simp: length_py_split length_pipe_fields min_def)
  have h: "?ps ! 0 = hd (pipe_fields s)"
    using hd_py_split_any[of "CHR ''|''" 4 "py_strip s"] length_py_split[of "CHR ''|''" 4 "py_strip s"]
    by (cases ?ps) (simp_all add: hd_pipe_fields)
  show ?thesis
    unfolding parse_cmd_def pyval.case case5 using l h
    by (simp add: cmd_fail_def)
qed

lemma parse_cmd_fail_shape: "\<not> fst (parse_cmd v) \<Longrightarrow> parse_cmd v = cmd_fail"
  unfolding parse_cmd_def case5
  by (cases v) (auto simp: cmd_fail_def split: if_splits)


section \<open>Command codec: round trip and failure\<close>

text \<open>
  Claim C7 (codec round trip).  For every action without a pipe character, every
  item id and variant id that is not negative and every integer argument, decoding
  the encoded token returns \<open>ok = True\<close> together with exactly the encoded action, item
  id, variant id and argument.
\<close>

theorem codec_roundtrip:
  assumes "CHR ''|'' \<notin> set action" and "0 \<le> item_id" and "0 \<le> variant_id"
  shows "parse_cmd (PStr (cmd action (Some item_id) (Some variant_id) (PInt arg)))
           = (True, Some action, Some item_id, Some variant_id, PInt arg)"
  using assms(1) by (rule parse_cmd_roundtrip)

theorem codec_roundtrip_witness:
  "CHR ''|'' \<notin> set ''INC'' \<and> (0::int) \<le> 12 \<and> (0::int) \<le> 0
   \<and> parse_cmd (PStr (cmd ''INC'' (Some 12) (Some 0) (PInt (- 1))))
       = (True, Some ''INC'', Some 12, Some 0, PInt (- 1))"
  using codec_roundtrip [of "''INC''" 12 0 "- 1"] by simp

text \<open>
  Claim C3 (codec fail-closed), as the code has it.  Decoding a string fails, with the
  all-\<open>None\<close> result, exactly when the trimmed string has fewer than five
  pipe-delimited fields or its first field is not \<open>CART\<close>.  The split is limited to
  four separators, so a string with more than five fields is accepted with the
  remainder as its fifth field, and a numeric field that is not a number decodes to
  \<open>None\<close> without failing.
\<close>

theorem parse_cmd_fail_closed:
  "(parse_cmd (PStr s) = cmd_fail)
     = (length (pipe_fields s) < 5 \<or> hd (pipe_fields s) \<noteq> ''CART'')"
proof -
  have "fst (parse_cmd (PStr s)) \<or> parse_cmd (PStr s) = cmd_fail"
    using parse_cmd_fail_shape by blast
  moreover have "\<not> fst cmd_fail" by (simp add: cmd_fail_def)
  ultimately have "(parse_cmd (PStr s) = cmd_fail) = (\<not> fst (parse_cmd (PStr s)))"
    by auto
  then show ?thesis by (auto simp: parse_cmd_ok_iff)
qed

theorem parse_cmd_fail_closed_witness:
  "length (pipe_fields ''CART|INC|1'') < 5 \<and> parse_cmd (PStr ''CART|INC|1'') = cmd_fail"
proof -
  have h: "length (pipe_fields ''CART|INC|1'') < 5" by code_simp
  then show ?thesis using parse_cmd_fail_closed [of "''CART|INC|1''"] by blast
qed

theorem parse_cmd_fail_closed_counterexample:
  "length (pipe_fields ''CART|INC|1|0|1|9'') = 6
   \<and> parse_cmd (PStr ''CART|INC|1|0|1|9'') = (True, Some ''INC'', Some 1, Some 0, PNone)
   \<and> parse_cmd (PStr ''CART|INC|abc|0|1'') = (True, Some ''INC'', None, Some 0, PInt 1)"
  by code_simp

section \<open>Effects: how the combinators run\<close>

lemma io_simps:
  "ret x tr = (Inr x, tr)"
  "raise e tr = (Inl e, tr)"
  "lift r tr = (r, tr)"
  "emit ev tr = (Inr (), tr @ [ev])"
  "call ev res tr = (res (tr @ [ev]), tr @ [ev])"
  by (simp_all add: ret_def raise_def lift_def emit_def call_def)

lemma bind_Inr: "m tr = (Inr x, tr1) \<Longrightarrow> bind m f tr = f x tr1"
  by (simp add: bind_def)

lemma bind_Inl: "m tr = (Inl e, tr1) \<Longrightarrow> bind m f tr = (Inl e, tr1)"
  by (simp add: bind_def)

lemma try_Inr: "m tr = (Inr x, tr1) \<Longrightarrow> try_except m h tr = (Inr x, tr1)"
  by (simp add: try_except_def)

lemma try_Inl: "m tr = (Inl e, tr1) \<Longrightarrow> try_except m h tr = h e tr1"
  by (simp add: try_except_def)

lemma send_text_run: "send_text w b tr = (Inr (), tr @ [SendText w b])"
  by (simp add: send_text_def io_simps)

lemma send_cart_run:
  "send_cart E w p tr =
     (Inr (), tr @ [GetCart w,
        SendText w (case get_cart_r E (tr @ [GetCart w]) of
                      Inl e \<Rightarrow> ''Cart error''
                    | Inr items \<Rightarrow> if items = [] then ''Cart empty''
                                   else py_join NL (cart_lines items))])"
  by (cases "get_cart_r E (tr @ [GetCart w])")
     (simp_all add: send_cart_def try_except_def bind_def get_cart_def io_simps send_text_run)

section \<open>Deduplication\<close>

text \<open>A key that is not in the store is claimed.\<close>

lemma claim_once_first:
  "dedupe_key kind wa mid h \<notin> set (map fst seen) \<Longrightarrow>
   fst (claim_once ttl kind wa mid h now seen)"
  by (auto simp: claim_once_def Let_def sweep_def)

text \<open>Within the TTL a second claim of the same triple is refused.\<close>

lemma claim_once_within_ttl:
  assumes "claim_once ttl kind wa mid h now1 seen = (True, seen1)"
      and "now2 \<le> now1 + real_of_int ttl"
  shows "\<not> fst (claim_once ttl kind wa mid h now2 seen1)"
proof -
  let ?k = "dedupe_key kind wa mid h"
  have "(?k, now1 + real_of_int ttl) \<in> set seen1"
    using assms(1) by (auto simp: claim_once_def Let_def split: if_splits)
  then have "?k \<in> set (map fst (sweep now2 seen1))" "?k \<in> set (map fst seen1)"
    using assms(2) by (force simp: sweep_def)+
  then show ?thesis by (simp add: claim_once_def Let_def)
qed

text \<open>
  After the TTL the second claim succeeds only when the sweep happens to run, that is
  when the store holds a multiple of 100 entries; the lookup itself never compares the
  expiry time.
\<close>

lemma claim_once_after_ttl:
  assumes "claim_once ttl kind wa mid h now1 seen = (True, seen1)"
      and "now1 + real_of_int ttl < now2"
  shows "fst (claim_once ttl kind wa mid h now2 seen1) = (length seen1 mod 100 = 0)"
proof -
  let ?k = "dedupe_key kind wa mid h"
  let ?s = "if seen \<noteq> [] \<and> length seen mod 100 = 0 then sweep now1 seen else seen"
  have 1: "seen1 = ?s @ [(?k, now1 + real_of_int ttl)]" and 2: "?k \<notin> set (map fst ?s)"
    using assms(1) by (auto simp: claim_once_def Let_def split: if_splits)
  have 3: "?k \<in> set (map fst seen1)" using 1 by simp
  have 4: "?k \<notin> set (map fst (sweep now2 seen1))"
    using 2 assms(2) unfolding 1 by (auto simp: sweep_def)
  have 5: "seen1 \<noteq> []" using 1 by simp
  show ?thesis using 3 4 5 by (simp add: claim_once_def Let_def)
qed

text \<open>
  Claim C1 (dedup idempotence with TTL expiry), at a failing input.  On an empty store
  the triple \<open>(message, 254700, wamid.1)\<close> is claimed at time 0 and again at time
  172801, one second after the 48 hour TTL has elapsed.  The first claim returns
  \<open>True\<close>; the second returns \<open>False\<close>, because the expired entry is still in the
  store and the store is left as it was.
\<close>

theorem claim_once_expired_still_refused:
  "claim_once DEDUP_TTL ''message'' ''254700'' (Some ''wamid.1'') 0 0 []
     = (True, [(''dedupe:message:254700:wamid.1'', 172800)])
   \<and> claim_once DEDUP_TTL ''message'' ''254700'' (Some ''wamid.1'') 0 172801
        [(''dedupe:message:254700:wamid.1'', 172800)]
     = (False, [(''dedupe:message:254700:wamid.1'', 172800)])"
  by (simp add: claim_once_def dedupe_key_def DEDUP_TTL_def)

section \<open>Note capture\<close>

text \<open>When the cart update succeeds the sender's state is cleared.\<close>

lemma note_success_clears:
  assumes "dict_get (get_user_state states wa) ''mode'' = PStr ''await_note''"
      and "safe_int (dict_get (get_user_state states wa) ''item_id'') None = Some i"
      and "i \<noteq> 0"
      and "update_cart_r E (tr @ [UpdateCart wa [OpSetNote i
              (dict_get (get_user_state states wa) ''variant_id'')
              (take 240 (py_strip text))]]) = Inr ()"
  shows "fst (handle_note_message E states wa text tr) = clear_user_state states wa"
  using assms
  by (simp add: handle_note_message_def Let_def update_cart_def io_simps send_cart_run)

text \<open>When the cart update raises, the state store is returned unchanged.\<close>

lemma note_failure_keeps:
  assumes "dict_get (get_user_state states wa) ''mode'' = PStr ''await_note''"
      and "safe_int (dict_get (get_user_state states wa) ''item_id'') None = Some i"
      and "i \<noteq> 0"
      and "update_cart_r E (tr @ [UpdateCart wa [OpSetNote i
              (dict_get (get_user_state states wa) ''variant_id'')
              (take 240 (py_strip text))]]) = Inl e"
  shows "fst (handle_note_message E states wa text tr) = states"
  using assms
  by (simp add: handle_note_message_def Let_def update_cart_def io_simps)

text \<open>
  Claim C4 (note capture clears the state unconditionally), at a failing input.  Sender
  254700 is in \<open>await_note\<close> mode for cart item 5 and sends \<open>no onions\<close>; the cart
  backend rejects the update.  The \<open>set_note\<close> operation is issued with the note text,
  the sender gets the apology of the webhook's exception handler, and afterwards the
  sender's mode is still \<open>await_note\<close>.
\<close>

theorem note_failure_leaves_state:
  "dict_get (get_user_state awaiting_note ''254700'') ''mode'' = PStr ''await_note''
   \<and> snd (inbound_text failing_cart_env awaiting_note ''254700'' ''Amina'' ''no onions'' [])
       = [UpdateCart ''254700'' [OpSetNote 5 PNone ''no onions''],
          SendText ''254700'' ''Sorry, something went wrong. Please try again.'']
   \<and> dict_get (get_user_state
         (fst (inbound_text failing_cart_env awaiting_note ''254700'' ''Amina'' ''no onions'' []))
         ''254700'') ''mode'' = PStr ''await_note''"
  by code_simp

section \<open>Classifier fallback\<close>

lemma llm_route_run:
  "llm_route E ut ms up cs mt tr =
     (Inr (case chat_r E (tr @ [ChatCompletion (llm_prompt ut ms up cs mt)]) of
             Inl e \<Rightarrow> sentinel
           | Inr resp \<Rightarrow>
               (case first_tool_arguments resp of
                  Inl e \<Rightarrow> sentinel
                | Inr args \<Rightarrow>
                    (case json_loads E args of
                       Inl e \<Rightarrow> sentinel
                     | Inr data \<Rightarrow>
                         (case parsed_order_init E data of
                            Inl e \<Rightarrow> sentinel
                          | Inr p \<Rightarrow> p)))),
      tr @ [ChatCompletion (llm_prompt ut ms up cs mt)])"
  by (simp add: llm_route_def try_except_def bind_def io_simps split: sum.splits)

lemma parsed_order_init_bad_action:
  "map_of kv ''action'' = Some (JStr a) \<Longrightarrow> a \<notin> set ACTIONS \<Longrightarrow>
   parsed_order_init E (JObj kv) = Inl ValidationError"
  by (simp add: parsed_order_init_def)

lemma parsed_order_init_no_action:
  "map_of kv ''action'' = None \<Longrightarrow> parsed_order_init E (JObj kv) = Inl ValidationError"
  by (simp add: parsed_order_init_def)

text \<open>
  Claim C5 (classifier fallback containment).  \<open>llm_route\<close> always returns a
  \<open>ParsedOrder\<close> and never raises.  Whenever the chat call raises, or the response has
  no first tool call, or its arguments are not JSON, or building the \<open>ParsedOrder\<close>
  from the data fails (an action outside the twelve literals is such a failure), the
  result is the sentinel: action \<open>SMALL_TALK\<close>, no items, no clarifications, and the
  generic retry text.
\<close>

theorem llm_route_fallback:
  "(\<exists>p. llm_route E ut ms up cs mt tr
          = (Inr p, tr @ [ChatCompletion (llm_prompt ut ms up cs mt)]))
   \<and> ((chat_r E (tr @ [ChatCompletion (llm_prompt ut ms up cs mt)]) = Inl e
        \<or> (chat_r E (tr @ [ChatCompletion (llm_prompt ut ms up cs mt)]) = Inr resp
            \<and> (first_tool_arguments resp = Inl e
                \<or> (first_tool_arguments resp = Inr args
                    \<and> (json_loads E args = Inl e
                        \<or> (json_loads E args = Inr data
                            \<and> parsed_order_init E data = Inl e))))))
       \<longrightarrow> llm_route E ut ms up cs mt tr
             = (Inr sentinel, tr @ [ChatCompletion (llm_prompt ut ms up cs mt)]))
   \<and> (map_of kv ''action'' = Some (JStr a) \<and> a \<notin> set ACTIONS
       \<longrightarrow> parsed_order_init E (JObj kv) = Inl ValidationError)
   \<and> po_action sentinel = ''SMALL_TALK'' \<and> po_items sentinel = []
   \<and> po_clarifications sentinel = []
   \<and> po_response_text sentinel
       = Some ''Sorry, I didn't catch that. Could you try again or ask for the menu?''"
  unfolding llm_route_run
  by (auto simp: parsed_order_init_bad_action sentinel_def)

theorem llm_route_fallback_witness:
  "chat_r unparsable_env [ChatCompletion (llm_prompt ''hi'' ''[]'' ''{}'' ''[]'' [])]
     = Inr [\<lparr>tool_calls = Some [''oops'']\<rparr>]
   \<and> first_tool_arguments [\<lparr>tool_calls = Some [''oops'']\<rparr>] = Inr ''oops''
   \<and> json_loads unparsable_env ''oops'' = Inl JSONDecodeError
   \<and> llm_route unparsable_env ''hi'' ''[]'' ''{}'' ''[]'' [] []
       = (Inr sentinel, [ChatCompletion (llm_prompt ''hi'' ''[]'' ''{}'' ''[]'' [])])"
  using llm_route_fallback
    [of unparsable_env "''hi''" "''[]''" "''{}''" "''[]''" "[]" "[]" JSONDecodeError
        "[\<lparr>tool_calls = Some [''oops'']\<rparr>]" "''oops''" JNull "[]" "[]"]
  by (simp add: unparsable_env_def quiet_env_def first_tool_arguments_def)

section \<open>Recommendation engine: the popularity fallback\<close>

lemma sorted_zero_pair:
  "sorted (map f xs) \<Longrightarrow> sorted (map (\<lambda>x. (0::int, f x :: int)) xs)"
  by (induction xs) (auto simp: less_eq_prod_def)

lemma final_key_not_popular:
  "\<forall>x\<in>set xs. \<not> r_popular x \<Longrightarrow> map final_key xs = map (\<lambda>x. (0, r_price x)) xs"
  by (simp add: final_key_def)

lemma filter_empty_none: "filter P xs = [] \<Longrightarrow> \<forall>x\<in>set xs. \<not> P x"
  by (simp add: filter_empty_conv)

lemma cheapest_fixed:
  assumes "filter r_popular pool = []"
  shows "sort_key final_key (take 6 (sort_key r_price pool))
           = take 6 (sort_key r_price pool)"
proof -
  let ?c = "take 6 (sort_key r_price pool)"
  have "set ?c \<subseteq> set pool" using set_take_subset[of 6 "sort_key r_price pool"] by simp
  then have np: "\<forall>x\<in>set ?c. \<not> r_popular x" using filter_empty_none[OF assms] by blast
  have "sorted (map r_price ?c)"
    by (simp add: take_map[symmetric])
  then have "sorted (map final_key ?c)"
    unfolding final_key_not_popular[OF np] by (rule sorted_zero_pair)
  then show ?thesis by (rule sort_key_id_if_sorted)
qed

lemma recommend_fallback_eq:
  assumes "popular_trigger (py_lower user_text @ py_lower ai_hint)"
      and "filter r_popular (candidate_pool items user_text ai_hint) = []"
  shows "recommend items user_text ai_hint
           = take 6 (sort_key r_price (candidate_pool items user_text ai_hint))"
  using assms by (simp add: recommend_def popular_filter_def Let_def cheapest_fixed)

lemma take6_sort_empty: "(take 6 (sort_key f xs) = []) = (xs = [])"
  by (metis length_0_conv length_sort take_eq_Nil zero_neq_numeral)

text \<open>What \<open>_send_recommendations\<close> does once the menu has been read.\<close>

lemma send_recommendations_run:
  assumes "fetch_menu_r E (tr @ [FetchMenu]) = Inr menu"
      and "menu_rec_items menu = Inr items"
  shows "send_recommendations E w user_text ai_hint tr
           = (Inr (), tr @ [FetchMenu,
                SendText w (if recommend items user_text ai_hint = [] then NOTHING_MATCHES
                            else picks_text (recommend items user_text ai_hint))])"
  using assms
  by (simp add: send_recommendations_def bind_def fetch_menu_def io_simps send_text_run Let_def)

text \<open>
  Claim C6 (popularity fallback), as the code has it.  Let the items be those built
  from the menu.  When a popularity keyword is detected and no item of the candidate
  pool (the items after the dietary, spice and budget filters) is popular, the
  recommendation is the six cheapest items of that pool, in ascending price with the
  menu's order among equal prices.  It is empty exactly when the pool is empty, and
  then the reply sent is the nothing-matches text.
\<close>

theorem recommend_popular_fallback:
  assumes "popular_trigger (py_lower user_text @ py_lower ai_hint)"
      and "filter r_popular (candidate_pool items user_text ai_hint) = []"
  shows "recommend items user_text ai_hint
           = take 6 (sort_key r_price (candidate_pool items user_text ai_hint))
         \<and> (recommend items user_text ai_hint = [])
             = (candidate_pool items user_text ai_hint = [])
         \<and> (fetch_menu_r E (tr @ [FetchMenu]) = Inr menu \<and> menu_rec_items menu = Inr items
              \<and> candidate_pool items user_text ai_hint = []
             \<longrightarrow> send_recommendations E w user_text ai_hint tr
                   = (Inr (), tr @ [FetchMenu, SendText w NOTHING_MATCHES]))"
proof -
  have r: "recommend items user_text ai_hint
           = take 6 (sort_key r_price (candidate_pool items user_text ai_hint))"
    using assms by (rule recommend_fallback_eq)
  have e: "(recommend items user_text ai_hint = [])
             = (candidate_pool items user_text ai_hint = [])"
    unfolding r by (rule take6_sort_empty)
  show ?thesis using r e by (auto simp: send_recommendations_run)
qed

text \<open>
  On the menu of eight items the six cheapest come out in ascending price and the two
  dearest are cut; on the one-item menu a vegetarian request empties the pool and the
  nothing-matches text is sent.
\<close>

theorem recommend_popular_fallback_witness:
  "popular_trigger (py_lower ''what is good'' @ py_lower [])
   \<and> filter r_popular (candidate_pool grill_items ''what is good'' []) = []
   \<and> length (candidate_pool grill_items ''what is good'' []) = 8
   \<and> map (\<lambda>r. (r_name r, r_price r)) (recommend grill_items ''what is good'' [])
       = [(''Soda'', 120), (''Fries'', 200), (''Salad'', 300), (''Burger'', 500),
          (''Wings'', 650), (''Ribs'', 900)]
   \<and> recommend grill_items ''what is good'' []
       = take 6 (sort_key r_price (candidate_pool grill_items ''what is good'' []))
   \<and> popular_trigger (py_lower ''best vegetarian'' @ py_lower [])
   \<and> fetch_menu_r burger_env [FetchMenu] = Inr burger_menu
   \<and> menu_rec_items burger_menu = Inr burger_items
   \<and> candidate_pool burger_items ''best vegetarian'' [] = []
   \<and> send_recommendations burger_env ''254700'' ''best vegetarian'' [] []
       = (Inr (), [FetchMenu, SendText ''254700'' NOTHING_MATCHES])"
proof -
  have g1: "popular_trigger (py_lower ''what is good'' @ py_lower [])"
    by code_simp
  have g2: "filter r_popular (candidate_pool grill_items ''what is good'' []) = []"
    by code_simp
  have g3: "length (candidate_pool grill_items ''what is good'' []) = 8"
    by code_simp
  have g4: "map (\<lambda>r. (r_name r, r_price r)) (recommend grill_items ''what is good'' [])
       = [(''Soda'', 120), (''Fries'', 200), (''Salad'', 300), (''Burger'', 500),
          (''Wings'', 650), (''Ribs'', 900)]"
    by code_simp
  have b1: "popular_trigger (py_lower ''best vegetarian'' @ py_lower [])"
    by code_simp
  have b2: "filter r_popular (candidate_pool burger_items ''best vegetarian'' []) = []"
    by code_simp
  have b3: "fetch_menu_r burger_env ([] @ [FetchMenu]) = Inr burger_menu"
    by (simp add: burger_env_def quiet_env_def)
  have b4: "menu_rec_items burger_menu = Inr burger_items"
    by code_simp
  have b5: "candidate_pool burger_items ''best vegetarian'' [] = []"
    by code_simp
  have grill: "recommend grill_items ''what is good'' []
       = take 6 (sort_key r_price (candidate_pool grill_items ''what is good'' []))"
    using recommend_popular_fallback [OF g1 g2] by blast
  have burger: "send_recommendations burger_env ''254700'' ''best vegetarian'' [] []
       = (Inr (), [] @ [FetchMenu, SendText ''254700'' NOTHING_MATCHES])"
    using recommend_popular_fallback [OF b1 b2, of burger_env "[]" burger_menu "''254700''"]
          b3 b4 b5 by blast
  show ?thesis
    using g1 g2 g3 g4 grill b1 b3 b4 b5 burger by simp
qed

text \<open>
  The catalog is not empty, a popularity keyword is present and no item of the pool is
  popular, and still the recommendation is empty.
\<close>

theorem recommend_popular_fallback_counterexample:
  "concat (map cat_items burger_menu) \<noteq> []
   \<and> menu_rec_items burger_menu = Inr burger_items
   \<and> popular_trigger (py_lower ''best vegetarian'' @ py_lower [])
   \<and> filter r_popular (candidate_pool burger_items ''best vegetarian'' []) = []
   \<and> recommend burger_items ''best vegetarian'' [] = []"
  by code_simp

section \<open>Recommendation engine: the budget filter\<close>

text \<open>
  The budget the code computes is the number spelled by all digit characters of the
  lowercased text followed by the lowercased hint, taken together.
\<close>

lemma extract_budget_digits:
  assumes "ds = filter py_isdigit both" and "ds \<noteq> []" and "list_all is_ascii_digit ds"
  shows "extract_budget both = Some (digits_to_int ds)"
  using assms py_int_digits[of ds] by (simp add: extract_budget_def)

text \<open>Without a digit there is no budget and the filter leaves the pool as it is.\<close>

lemma extract_budget_no_digit:
  "filter py_isdigit both = [] \<Longrightarrow> extract_budget both = None"
  by (simp add: extract_budget_def py_int_def py_strip_def)

lemma budget_filter_no_digit:
  "filter py_isdigit both = [] \<Longrightarrow> budget_filter text_low both recs = recs"
  by (simp add: budget_filter_def extract_budget_no_digit)

text \<open>With a budget, exactly the items priced above it are removed.\<close>

lemma budget_filter_cuts:
  assumes "any_in [''under'', ''below'', ''max'', ''cheaper than''] text_low"
      and "extract_budget both = Some b"
  shows "budget_filter text_low both recs = filter (\<lambda>i. \<not> b < r_price i) recs"
  using assms by (simp add: budget_filter_def not_less)

text \<open>
  Claim C8 (budget filter extraction), at failing inputs.  The router's own example:
  the user writes \<open>something spicy under 1000\<close> and the hint is
  \<open>RECOMMEND spicy under 1000\<close>.  The longest run of digits in text and hint is 1000,
  but the code reads the budget 10001000, so the platter at 1500 is not excluded and
  is offered to the sender.  With two numbers in the text alone,
  \<open>2 burgers under 800\<close>, the longest run is 800 and the code's budget is 2800.
\<close>

theorem budget_runs_digits_together:
  "any_in [''under'', ''below'', ''max'', ''cheaper than''] (py_lower ''something spicy under 1000'')
   \<and> longest_digit_run (py_lower ''something spicy under 1000''
                          @ py_lower ''RECOMMEND spicy under 1000'') = ''1000''
   \<and> spec_budget (py_lower ''something spicy under 1000''
                    @ py_lower ''RECOMMEND spicy under 1000'') = Some 1000
   \<and> extract_budget (py_lower ''something spicy under 1000''
                       @ py_lower ''RECOMMEND spicy under 1000'') = Some 10001000
   \<and> snd (send_recommendations spicy_env ''254700'' ''something spicy under 1000''
             ''RECOMMEND spicy under 1000'' [])
       = [FetchMenu,
          SendText ''254700''
            (py_join NL [''Here are my top picks for you:'', ''* Wings - KSh 900'',
                         ''* Platter - KSh 1500'', NL @ ''Just say the name to add it''])]
   \<and> spec_budget (py_lower ''2 burgers under 800'' @ py_lower []) = Some 800
   \<and> extract_budget (py_lower ''2 burgers under 800'' @ py_lower []) = Some 2800"
  by code_simp

section \<open>Text router: the classifier tier\<close>

lemma send_cart_summary:
  "send_cart E w p tr
     = (Inr (), tr @ [GetCart w, SendText w (cart_summary (get_cart_r E (tr @ [GetCart w])))])"
  by (simp add: send_cart_run cart_summary_def)

lemma bind_args_router:
  "bind_args llm_route_params [ArgStr p] ROUTER_KWARGS = Inl TypeError"
  by (simp add: bind_args_def llm_route_params_def ROUTER_KWARGS_def)

lemma call_llm_route_router:
  "call_llm_route E [ArgStr p] ROUTER_KWARGS tr = (Inl TypeError, tr)"
  by (simp add: call_llm_route_def bind_args_router io_simps)

lemma llm_response_run:
  "llm_response E p tr = (Inr [], tr @ [LlmRouteCall p [''max_tokens'', ''temperature'']])"
  using call_llm_route_router[of E p]
  by (simp add: llm_response_def try_except_def bind_def io_simps ROUTER_KWARGS_def)

lemma dispatch_empty: "dispatch E w name text [] = fallback_branch E w"
  by (simp add: dispatch_def py_upper_def py_startswith_def)

lemma fallback_branch_run:
  "fallback_branch E w tr
     = (Inr (), tr @ [SendText w FALLBACK_TEXT, Sleep 300, GetCart w,
          SendText w (cart_summary
             (get_cart_r E (tr @ [SendText w FALLBACK_TEXT, Sleep 300, GetCart w])))])"
  by (simp add: fallback_branch_def bind_def send_text_run io_simps send_cart_summary)

lemma cart_text_run:
  "try_except (bind (get_cart E w) (\<lambda>items. ret (cart_text_of items)))
              (\<lambda>e. ret ''nothing yet'') tr
     = (Inr (prompt_cart_text (get_cart_r E (tr @ [GetCart w]))), tr @ [GetCart w])"
  by (cases "get_cart_r E (tr @ [GetCart w])")
     (simp_all add: try_except_def bind_def get_cart_def io_simps prompt_cart_text_def)

lemma route_llm_run:
  "route_llm E w name text tr =
     (case build_prompt name (prompt_cart_text (get_cart_r E (tr @ [GetCart w]))) text of
        Inl e \<Rightarrow> (Inl e, tr @ [GetCart w])
      | Inr p \<Rightarrow>
          fallback_branch E w
            (tr @ [GetCart w, LlmRouteCall p [''max_tokens'', ''temperature'']]))"
  by (simp add: route_llm_def bind_def cart_text_run io_simps llm_response_run dispatch_empty
           split: sum.splits)


lemma route_text_no_fast_path:
  "no_fast_path text \<Longrightarrow> route_text E w name text = route_llm E w name text"
  by (simp add: route_text_def no_fast_path_def Let_def)

text \<open>
  Claim C2 (the router's classifier call always falls back), as the code has it.  For a
  text that matches no deterministic rule, and a customer name that contains at least
  one word, the call \<open>llm_route(prompt, max_tokens=40, temperature=0.0)\<close> raises
  \<open>TypeError\<close> while its arguments are bound, before the body of \<open>llm_route\<close>
  runs; the reply string is empty; and the router does exactly this: it reads the cart,
  builds the prompt from that reply of the cart backend, attempts the call, sends the
  generic fallback text, pauses, reads the cart again and sends the summary of what
  the cart backend answered this second time.  No chat completion is requested and no
  branch for a classifier reply is taken.
\<close>

theorem route_text_always_fallback:
  assumes "no_fast_path text" and "first_word name = Inr fw"
  shows "call_llm_route E [ArgStr any_prompt] ROUTER_KWARGS tr0 = (Inl TypeError, tr0)
         \<and> (\<exists>prompt.
               build_prompt name (prompt_cart_text (get_cart_r E (tr @ [GetCart w]))) text
                 = Inr prompt
               \<and> route_text E w name text tr
                 = (Inr (),
                    tr @ [GetCart w,
                          LlmRouteCall prompt [''max_tokens'', ''temperature''],
                          SendText w FALLBACK_TEXT, Sleep 300, GetCart w,
                          SendText w (cart_summary (get_cart_r E
                            (tr @ [GetCart w,
                                   LlmRouteCall prompt [''max_tokens'', ''temperature''],
                                   SendText w FALLBACK_TEXT, Sleep 300, GetCart w])))]))"
proof -
  obtain p where p: "build_prompt name (prompt_cart_text (get_cart_r E (tr @ [GetCart w]))) text
                       = Inr p"
    using assms(2) by (auto simp: build_prompt_def)
  have "route_text E w name text tr
          = fallback_branch E w (tr @ [GetCart w, LlmRouteCall p [''max_tokens'', ''temperature'']])"
    using assms(1) p by (simp add: route_text_no_fast_path route_llm_run)
  then show ?thesis
    using p by (auto simp: fallback_branch_run call_llm_route_router)
qed

text \<open>
  With two lines in the cart, one of them at 450.5 a piece, the sender gets the
  fallback text and then the cart lines with the total cut to whole shillings.
\<close>

theorem route_text_always_fallback_witness:
  "no_fast_path ''hello there'' \<and> first_word ''Amina W'' = Inr ''Amina''
   \<and> call_llm_route stocked_env [ArgStr ''p''] ROUTER_KWARGS [] = (Inl TypeError, [])
   \<and> map is_outbound (snd (route_text stocked_env ''254700'' ''Amina W'' ''hello there'' []))
       = [False, False, True, False, False, True]
   \<and> filter is_outbound (snd (route_text stocked_env ''254700'' ''Amina W'' ''hello there'' []))
       = [SendText ''254700'' FALLBACK_TEXT,
          SendText ''254700''
            (py_join NL [''Cart:'', ''* Burger'' @ MULT @ ''2'', ''* Soda'' @ MULT @ ''1'',
                         ''Total KSh 1021''])]"
proof -
  have h1: "no_fast_path ''hello there''" by code_simp
  have h2: "first_word ''Amina W'' = Inr ''Amina''" by code_simp
  have c: "\<And>t. cart_summary (get_cart_r stocked_env t)
             = py_join NL [''Cart:'', ''* Burger'' @ MULT @ ''2'', ''* Soda'' @ MULT @ ''1'',
                           ''Total KSh 1021'']"
    by (simp add: stocked_env_def quiet_env_def) code_simp
  obtain prompt where
    r: "route_text stocked_env ''254700'' ''Amina W'' ''hello there'' []
          = (Inr (),
             [] @ [GetCart ''254700'',
                   LlmRouteCall prompt [''max_tokens'', ''temperature''],
                   SendText ''254700'' FALLBACK_TEXT, Sleep 300, GetCart ''254700'',
                   SendText ''254700'' (cart_summary (get_cart_r stocked_env
                     ([] @ [GetCart ''254700'',
                            LlmRouteCall prompt [''max_tokens'', ''temperature''],
                            SendText ''254700'' FALLBACK_TEXT, Sleep 300,
                            GetCart ''254700''])))])"
    and t: "call_llm_route stocked_env [ArgStr ''p''] ROUTER_KWARGS [] = (Inl TypeError, [])"
    using route_text_always_fallback [OF h1 h2, of stocked_env "''p''" "[]" "[]" "''254700''"]
    by blast
  show ?thesis
    using h1 h2 t by (simp add: r c)
qed

text \<open>
  For a customer name without a word, \<open>name.split()[0]\<close> raises \<open>IndexError\<close> while
  the prompt is built: the router has only read the cart and sends nothing.
\<close>

theorem route_text_always_fallback_counterexample:
  "no_fast_path ''hello there''
   \<and> route_text quiet_env ''254700'' [] ''hello there'' [] = (Inl IndexError, [GetCart ''254700''])"
  by code_simp

section \<open>Text router: the deterministic rules\<close>

lemma do_checkout_run:
  "do_checkout E w name m tr =
     (Inr (),
      tr @ (case checkout_r E (tr @ [Checkout w name w m]) of
              Inl e \<Rightarrow> [Checkout w name w m,
                        SendText w ''Checkout failed. Please try again or send *help*.'']
            | Inr code \<Rightarrow> [Checkout w name w m,
                           SendText w (''Order placed! Code: *'' @ py_str code @ ''*'' @ NL
                                       @ ''We'll confirm shortly.''),
                           UpdateLastOrder w]))"
  by (cases "checkout_r E (tr @ [Checkout w name w m])")
     (simp_all add: do_checkout_def try_except_def bind_def checkout_def io_simps send_text_run)

lemma status_branch_run:
  "status_branch E w t tr =
     (Inr (),
      tr @ (let code = py_strip (py_remove ''status'' t)
            in if code = [] then []
               else [FetchOrder code,
                     SendText w (case fetch_order_r E (tr @ [FetchOrder code]) of
                                   Inl e \<Rightarrow> ''I can't find that order. Check the code and try again.''
                                 | Inr status \<Rightarrow> ''Order *'' @ code @ ''* is *''
                                       @ py_upper status @ ''* right now.'')]))"
  by (cases "fetch_order_r E (tr @ [FetchOrder (py_strip (py_remove ''status'' t))])")
     (simp_all add: status_branch_def Let_def try_except_def bind_def fetch_order_def io_simps
        send_text_run)

lemma do_checkout_no_llm:
  "\<exists>new. snd (do_checkout E w name m tr) = tr @ new \<and> list_all (\<lambda>e. \<not> is_llm_call e) new"
  unfolding do_checkout_run by (simp split: sum.splits)

lemma status_branch_no_llm:
  "\<exists>new. snd (status_branch E w t tr) = tr @ new \<and> list_all (\<lambda>e. \<not> is_llm_call e) new"
  unfolding status_branch_run by (simp add: Let_def)

lemma send_cart_no_llm:
  "\<exists>new. snd (send_cart E w p tr) = tr @ new \<and> list_all (\<lambda>e. \<not> is_llm_call e) new"
  unfolding send_cart_summary by simp

text \<open>
  Claim C9 (fast-path priority and short-circuit).  The rules are tested on the
  trimmed, lowercased text in the order checkout keywords, order-status prefix,
  cart-view keywords.  The first rule that matches alone determines what the router
  does, whatever the later rules say, and when any rule matches the router makes no
  call of \<open>llm_route\<close> and requests no chat completion.
\<close>

theorem fast_path_priority:
  "(let t = py_lower (py_strip text)
    in (checkout_match t \<longrightarrow> route_text E w name text = do_checkout E w name ''pickup'')
     \<and> (\<not> checkout_match t \<and> status_match t
          \<longrightarrow> route_text E w name text = status_branch E w t)
     \<and> (\<not> checkout_match t \<and> \<not> status_match t \<and> cart_match t
          \<longrightarrow> route_text E w name text = send_cart E w [])
     \<and> (checkout_match t \<or> status_match t \<or> cart_match t
          \<longrightarrow> (\<exists>new. snd (route_text E w name text tr) = tr @ new
                      \<and> list_all (\<lambda>e. \<not> is_llm_call e) new)))"
  using do_checkout_no_llm[of E w name "''pickup''" tr]
        status_branch_no_llm[of E w "py_lower (py_strip text)" tr]
        send_cart_no_llm[of E w "[]" tr]
  by (auto simp: route_text_def Let_def)

theorem fast_path_priority_witness:
  "checkout_match (py_lower (py_strip ''Checkout my cart ''))
   \<and> cart_match (py_lower (py_strip ''Checkout my cart ''))
   \<and> snd (route_text quiet_env ''254700'' ''Amina'' ''Checkout my cart '' [])
       = [Checkout ''254700'' ''Amina'' ''254700'' ''pickup'',
          SendText ''254700'' (''Order placed! Code: *A1*'' @ NL @ ''We'll confirm shortly.''),
          UpdateLastOrder ''254700'']"
proof -
  have h1: "checkout_match (py_lower (py_strip ''Checkout my cart ''))" by code_simp
  have h2: "cart_match (py_lower (py_strip ''Checkout my cart ''))" by code_simp
  have d: "snd (do_checkout quiet_env ''254700'' ''Amina'' ''pickup'' [])
       = [Checkout ''254700'' ''Amina'' ''254700'' ''pickup'',
          SendText ''254700'' (''Order placed! Code: *A1*'' @ NL @ ''We'll confirm shortly.''),
          UpdateLastOrder ''254700'']"
    by code_simp
  have "route_text quiet_env ''254700'' ''Amina'' ''Checkout my cart ''
          = do_checkout quiet_env ''254700'' ''Amina'' ''pickup''"
    using fast_path_priority [of "''Checkout my cart ''" quiet_env "''254700''" "''Amina''" "[]"] h1
    by (simp add: Let_def)
  then show ?thesis using h1 h2 d by simp
qed

section \<open>Text router: clarifications\<close>

text \<open>
  On the classifier tier the router makes no call that changes the cart or places an
  order, whatever the collaborators answer.
\<close>

lemma route_llm_no_mutation:
  "\<exists>new. snd (route_llm E w name text tr) = tr @ new \<and> list_all (\<lambda>e. \<not> is_mutation e) new"
  unfolding route_llm_run by (simp add: fallback_branch_run split: sum.splits)

lemma route_text_tier_no_mutation:
  "no_fast_path text \<Longrightarrow>
   \<exists>new. snd (route_text E w name text tr) = tr @ new \<and> list_all (\<lambda>e. \<not> is_mutation e) new"
  using route_llm_no_mutation[of E w name "text" tr] by (simp add: route_text_no_fast_path)

text \<open>
  Nothing the classifier could answer reaches the sender: the events of the tier do not
  depend on the chat service, the JSON parser or the field validation.
\<close>

lemma route_text_ignores_classifier:
  "no_fast_path text \<Longrightarrow>
   route_text (E\<lparr>chat_r := c, json_loads := j, validate_fields := v\<rparr>) w name text tr
     = route_text E w name text tr"
  by (simp add: route_text_no_fast_path route_llm_run fallback_branch_run split: sum.splits)

text \<open>
  Claim C10 (clarification halts mutation), at a failing input.  The classifier answers
  the text \<open>make the burger 3\<close> with an edit intent whose clarifications are
  \<open>Which burger?\<close>.  The router issues no cart-changing call, but the clarification
  is not what the sender receives: the router's call of \<open>llm_route\<close> fails while its
  arguments are bound, no chat completion is requested, and the only messages sent are
  the generic fallback text and the cart summary.
\<close>

theorem clarification_not_surfaced:
  "no_fast_path ''make the burger 3''
   \<and> fst (llm_route clarifying_env ''make the burger 3'' [] [] [] [] [])
       = Inr \<lparr>po_action = ''EDIT_SET_QTY'', po_items = [],
              po_clarifications = [''Which burger?''], po_response_text = None\<rparr>
   \<and> list_all (\<lambda>e. \<not> is_mutation e)
        (snd (route_text clarifying_env ''254700'' ''Amina'' ''make the burger 3'' []))
   \<and> list_all (\<lambda>e. \<not> is_chat e)
        (snd (route_text clarifying_env ''254700'' ''Amina'' ''make the burger 3'' []))
   \<and> filter is_outbound
        (snd (route_text clarifying_env ''254700'' ''Amina'' ''make the burger 3'' []))
       = [SendText ''254700'' ''Got it! Anything else you'd like?'',
          SendText ''254700'' ''Cart empty'']"
  by code_simp

end
